theory Spec2Isabelle
  imports Complex_Main "HOL-Library.Multiset"
begin

section \<open>Data model\<close>

text \<open>
  The calculation engine of the hours-tracking application lives in the function
  \<open>calculateTotals\<close> of each application variant. The variant with sequential deductions
  and transfers between profiles is the main one; the client-rate variant adds
  \<open>calculateRevenueBreakdown\<close>; the step-by-step variant differs in how it reads the
  applied-state map.

  A TypeScript \<open>number\<close> is modelled as a real: sums, products and quotients are exact,
  and there is no \<open>NaN\<close> and no infinity among the inputs. The only divisions whose
  divisor is not a constant are those of the aggregator; they go through \<open>js_div\<close>,
  which makes a zero divisor visible. Identifiers and names are strings. The \<open>Date\<close>
  fields of the records take no part in any calculation and are left out.
\<close>

datatype deduction_type = Percentage | Fixed

datatype applies_to = Employee | Employer | Both

datatype distribution_type = Margin | ProfitShare

datatype deduction_mode = Uurloon | Marge

record HourlyRate =
  hr_id :: string
  hr_label :: string
  hr_rate :: real

record ClientRate =
  cr_id :: string
  cr_label :: string
  cr_rate :: real
  cr_employeeRateId :: string

record ProfitDistribution =
  dist_id :: string
  dist_name :: string
  dist_percentage :: real
  dist_type :: distribution_type

record Deduction =
  d_id :: string
  d_name :: string
  d_amount :: real
  d_type :: deduction_type
  d_priority :: real
  d_appliesTo :: applies_to
  d_recipientProfileId :: "string option"

text \<open>
  One profile record carries the fields of all variants: \<open>p_clientRates\<close> and
  \<open>p_profitDistributions\<close> are read by the client-rate variant only, and
  \<open>d_recipientProfileId\<close> by the transfer variant only.
\<close>

record Profile =
  p_id :: string
  p_name :: string
  p_hourlyRates :: "HourlyRate list"
  p_clientRates :: "ClientRate list"
  p_profitDistributions :: "ProfitDistribution list"
  p_deductionType :: deduction_mode
  p_deductions :: "Deduction list"

record HoursEntry =
  e_id :: string
  e_profileId :: string
  e_hourlyRateId :: string
  e_hours :: real
  e_description :: "string option"

section \<open>Gross calculator\<close>

text \<open>
  \<open>hoursEntries.reduce(...)\<close> groups the hours by profile id: a key that is absent (or
  holds 0) is set to 0 before the entry's hours are added.
\<close>

definition hoursStep :: "(string \<rightharpoonup> real) \<Rightarrow> HoursEntry \<Rightarrow> (string \<rightharpoonup> real)" where
  "hoursStep acc e =
     acc(e_profileId e \<mapsto>
       (case acc (e_profileId e) of None \<Rightarrow> 0 | Some v \<Rightarrow> (if v = 0 then 0 else v))
         + e_hours e)"

definition profileHours :: "HoursEntry list \<Rightarrow> (string \<rightharpoonup> real)" where
  "profileHours es = foldl hoursStep Map.empty es"

text \<open>\<open>profileHours[profile.id] || 0\<close>\<close>

definition totalHoursOf :: "Profile \<Rightarrow> HoursEntry list \<Rightarrow> real" where
  "totalHoursOf p es = (case profileHours es (p_id p) of None \<Rightarrow> 0 | Some v \<Rightarrow> v)"

text \<open>\<open>hoursEntries.filter(entry => entry.profileId === profile.id)\<close>\<close>

definition profileEntries :: "Profile \<Rightarrow> HoursEntry list \<Rightarrow> HoursEntry list" where
  "profileEntries p es = filter (\<lambda>e. e_profileId e = p_id p) es"

text \<open>\<open>profile.hourlyRates.find(rate => rate.id === entry.hourlyRateId)\<close>\<close>

definition findHourlyRate :: "Profile \<Rightarrow> HoursEntry \<Rightarrow> HourlyRate option" where
  "findHourlyRate p e = find (\<lambda>r. hr_id r = e_hourlyRateId e) (p_hourlyRates p)"

text \<open>
  The \<open>forEach\<close> loop that accumulates \<open>grossAmount\<close>, starting from 0: an entry whose
  rate is found adds \<open>entry.hours * hourlyRate.rate\<close>, any other entry adds nothing.
\<close>

definition grossStep :: "Profile \<Rightarrow> real \<Rightarrow> HoursEntry \<Rightarrow> real" where
  "grossStep p g e =
     (case findHourlyRate p e of None \<Rightarrow> g | Some r \<Rightarrow> g + e_hours e * hr_rate r)"

definition grossAmountOf :: "Profile \<Rightarrow> HoursEntry list \<Rightarrow> real" where
  "grossAmountOf p es = foldl (grossStep p) 0 (profileEntries p es)"

text \<open>The contribution of one entry, as the specification words it.\<close>

definition entryPay :: "Profile \<Rightarrow> HoursEntry \<Rightarrow> real" where
  "entryPay p e =
     (case findHourlyRate p e of None \<Rightarrow> 0 | Some r \<Rightarrow> e_hours e * hr_rate r)"

section \<open>Deduction processor, sequential mode (transfer variant)\<close>

text \<open>\<open>String.prototype.includes\<close> on two strings.\<close>

fun startsWith :: "string \<Rightarrow> string \<Rightarrow> bool" where
  "startsWith s [] = True"
| "startsWith [] (c # cs) = False"
| "startsWith (x # xs) (c # cs) = (x = c \<and> startsWith xs cs)"

fun str_includes :: "string \<Rightarrow> string \<Rightarrow> bool" where
  "str_includes [] sub = startsWith [] sub"
| "str_includes (x # xs) sub = (startsWith (x # xs) sub \<or> str_includes xs sub)"

text \<open>
  \<open>Array.prototype.sort\<close> with a comparator: a stable sort, here by insertion from
  the right. An element goes in front of the first element it does not compare
  greater than, so that of two elements comparing equal the one that came first in
  the input stays first.
\<close>

fun insertBy :: "('a \<Rightarrow> 'a \<Rightarrow> real) \<Rightarrow> 'a \<Rightarrow> 'a list \<Rightarrow> 'a list" where
  "insertBy cmp x [] = [x]"
| "insertBy cmp x (y # ys) = (if cmp x y \<le> 0 then x # y # ys else y # insertBy cmp x ys)"

definition sortBy :: "('a \<Rightarrow> 'a \<Rightarrow> real) \<Rightarrow> 'a list \<Rightarrow> 'a list" where
  "sortBy cmp xs = foldr (insertBy cmp) xs []"

text \<open>
  \<open>profile.deductions.sort((a, b) => a.priority - b.priority)\<close>. The sort is in place:
  every later read of \<open>profile.deductions\<close> sees the sorted array.
\<close>

definition sortedDeductions :: "Profile \<Rightarrow> Deduction list" where
  "sortedDeductions p = sortBy (\<lambda>a b. d_priority a - d_priority b) (p_deductions p)"

definition sortProfile :: "Profile \<Rightarrow> Profile" where
  "sortProfile p = p\<lparr>p_deductions := sortedDeductions p\<rparr>"

text \<open>
  The key of the applied-state map: the profile's id, a hyphen and the deduction's id,
  as the template string of the source joins them.
\<close>

definition deductionKey :: "string \<Rightarrow> string \<Rightarrow> string" where
  "deductionKey pid did = pid @ ''-'' @ did"

text \<open>\<open>appliedDeductions[deductionKey] !== false\<close>\<close>

definition isApplied :: "(string \<rightharpoonup> bool) \<Rightarrow> string \<Rightarrow> string \<Rightarrow> bool" where
  "isApplied ad pid did = (ad (deductionKey pid did) \<noteq> Some False)"

record DeductionBreakdown =
  b_deductionId :: string
  b_deductionName :: string
  b_amount :: real
  b_type :: deduction_type
  b_recipient :: string

record CalculationResult =
  res_profileId :: string
  res_profileName :: string
  res_totalHours :: real
  res_grossAmount :: real
  res_totalDeductions :: real
  res_netAmount :: real
  res_deductionBreakdown :: "DeductionBreakdown list"
  res_receivedFromOthers :: real

text \<open>
  The base of a profit-share deduction: \<open>tempAmount\<close> starts at the gross amount; the
  first applied deduction of \<open>ds\<close> whose name includes "Salary" is looked up and, if it
  is a fixed one, its amount times the hours is subtracted; then the first applied
  deduction whose name includes "MGMT Fee" is looked up and, if it is a percentage, that
  percentage of \<open>tempAmount\<close> is subtracted. \<open>ds\<close> is \<open>profile.deductions\<close> as the
  callback reads it, that is, already sorted.
\<close>

definition salaryDeduction :: "(string \<rightharpoonup> bool) \<Rightarrow> string \<Rightarrow> Deduction list \<Rightarrow> Deduction option" where
  "salaryDeduction ad pid ds =
     find (\<lambda>d. isApplied ad pid (d_id d) \<and> str_includes (d_name d) ''Salary'') ds"

definition mgmtFeeDeduction :: "(string \<rightharpoonup> bool) \<Rightarrow> string \<Rightarrow> Deduction list \<Rightarrow> Deduction option" where
  "mgmtFeeDeduction ad pid ds =
     find (\<lambda>d. isApplied ad pid (d_id d) \<and> str_includes (d_name d) ''MGMT Fee'') ds"

definition afterSalary :: "(string \<rightharpoonup> bool) \<Rightarrow> string \<Rightarrow> Deduction list \<Rightarrow> real \<Rightarrow> real \<Rightarrow> real" where
  "afterSalary ad pid ds grossAmount totalHours =
     (case salaryDeduction ad pid ds of
        Some s \<Rightarrow> (if d_type s = Fixed then grossAmount - d_amount s * totalHours else grossAmount)
      | None \<Rightarrow> grossAmount)"

definition profitShareBase :: "(string \<rightharpoonup> bool) \<Rightarrow> string \<Rightarrow> Deduction list \<Rightarrow> real \<Rightarrow> real \<Rightarrow> real" where
  "profitShareBase ad pid ds grossAmount totalHours =
     (let tempAmount = afterSalary ad pid ds grossAmount totalHours in
      case mgmtFeeDeduction ad pid ds of
        Some m \<Rightarrow> (if d_type m = Percentage
                   then tempAmount - (tempAmount * d_amount m) / 100
                   else tempAmount)
      | None \<Rightarrow> tempAmount)"

text \<open>The amount of an applied deduction, given the running \<open>remainingAmount\<close>.\<close>

definition appliedAmount ::
  "(string \<rightharpoonup> bool) \<Rightarrow> string \<Rightarrow> Deduction list \<Rightarrow> real \<Rightarrow> real \<Rightarrow> real \<Rightarrow> Deduction \<Rightarrow> real" where
  "appliedAmount ad pid ds grossAmount totalHours remainingAmount d =
     (if d_type d = Percentage then
        (if str_includes (d_name d) ''Profit Share''
         then (profitShareBase ad pid ds grossAmount totalHours * d_amount d) / 100
         else (remainingAmount * d_amount d) / 100)
      else d_amount d * totalHours)"

definition deductionAmount ::
  "(string \<rightharpoonup> bool) \<Rightarrow> string \<Rightarrow> Deduction list \<Rightarrow> real \<Rightarrow> real \<Rightarrow> real \<Rightarrow> Deduction \<Rightarrow> real" where
  "deductionAmount ad pid ds grossAmount totalHours remainingAmount d =
     (if isApplied ad pid (d_id d)
      then appliedAmount ad pid ds grossAmount totalHours remainingAmount d
      else 0)"

text \<open>\<open>deduction.recipientProfileId || ''\<close>\<close>

definition recipientOrEmpty :: "Deduction \<Rightarrow> string" where
  "recipientOrEmpty d = (case d_recipientProfileId d of None \<Rightarrow> [] | Some r \<Rightarrow> r)"

definition breakdownOf :: "Deduction \<Rightarrow> real \<Rightarrow> DeductionBreakdown" where
  "breakdownOf d amount =
     \<lparr>b_deductionId = d_id d, b_deductionName = d_name d, b_amount = amount,
      b_type = d_type d, b_recipient = recipientOrEmpty d\<rparr>"

text \<open>
  The \<open>map\<close> callback over the sorted deductions, with the closure variable
  \<open>remainingAmount\<close> passed along: the result is the breakdown and the final
  \<open>remainingAmount\<close>. An applied deduction lowers \<open>remainingAmount\<close> by its amount, a
  deduction that is not applied leaves it as it is.
\<close>

fun processDeductions ::
  "(string \<rightharpoonup> bool) \<Rightarrow> string \<Rightarrow> Deduction list \<Rightarrow> real \<Rightarrow> real \<Rightarrow> real \<Rightarrow> Deduction list
     \<Rightarrow> DeductionBreakdown list \<times> real" where
  "processDeductions ad pid ds grossAmount totalHours remainingAmount [] = ([], remainingAmount)"
| "processDeductions ad pid ds grossAmount totalHours remainingAmount (d # rest) =
     (let amount = deductionAmount ad pid ds grossAmount totalHours remainingAmount d;
          remainingAmount' = (if isApplied ad pid (d_id d) then remainingAmount - amount
                              else remainingAmount);
          (bs, final) = processDeductions ad pid ds grossAmount totalHours remainingAmount' rest
      in (breakdownOf d amount # bs, final))"

text \<open>Phase 1 of \<open>calculateTotals\<close> for one profile.\<close>

definition sequentialDeductions ::
  "(string \<rightharpoonup> bool) \<Rightarrow> Profile \<Rightarrow> HoursEntry list \<Rightarrow> DeductionBreakdown list \<times> real" where
  "sequentialDeductions ad p es =
     processDeductions ad (p_id p) (sortedDeductions p) (grossAmountOf p es) (totalHoursOf p es)
       (grossAmountOf p es) (sortedDeductions p)"

definition phase1 :: "(string \<rightharpoonup> bool) \<Rightarrow> HoursEntry list \<Rightarrow> Profile \<Rightarrow> CalculationResult" where
  "phase1 ad es p =
     (let (deductionBreakdown, remainingAmount) = sequentialDeductions ad p es in
      \<lparr>res_profileId = p_id p, res_profileName = p_name p,
       res_totalHours = totalHoursOf p es, res_grossAmount = grossAmountOf p es,
       res_totalDeductions = grossAmountOf p es - remainingAmount,
       res_netAmount = remainingAmount,
       res_deductionBreakdown = deductionBreakdown,
       res_receivedFromOthers = 0\<rparr>)"

definition phase1Results :: "(string \<rightharpoonup> bool) \<Rightarrow> Profile list \<Rightarrow> HoursEntry list \<Rightarrow> CalculationResult list" where
  "phase1Results ad profiles es = map (phase1 ad es) profiles"

section \<open>Transfer resolver\<close>

text \<open>
  Phase 2 runs after phase 1 has sorted every profile's deductions in place, so
  \<open>profiles.find(...)\<close> yields profiles with sorted deductions. The three nested loops
  add to the one variable \<open>receivedFromOthers\<close>.
\<close>

definition receiveStep ::
  "(string \<rightharpoonup> bool) \<Rightarrow> Profile \<Rightarrow> CalculationResult \<Rightarrow> string \<Rightarrow> real \<Rightarrow> Deduction \<Rightarrow> real" where
  "receiveStep ad otherProfile otherResult rid received d =
     (if d_recipientProfileId d = Some rid then
        (if isApplied ad (p_id otherProfile) (d_id d) then
           (case find (\<lambda>b. b_deductionId b = d_id d) (res_deductionBreakdown otherResult) of
              Some deductionDetail \<Rightarrow> received + b_amount deductionDetail
            | None \<Rightarrow> received)
         else received)
      else received)"

definition receiveFromResult ::
  "(string \<rightharpoonup> bool) \<Rightarrow> Profile list \<Rightarrow> string \<Rightarrow> real \<Rightarrow> CalculationResult \<Rightarrow> real" where
  "receiveFromResult ad profiles rid received otherResult =
     (if res_profileId otherResult \<noteq> rid then
        (case find (\<lambda>p. p_id p = res_profileId otherResult) profiles of
           Some otherProfile \<Rightarrow>
             foldl (receiveStep ad otherProfile otherResult rid) received (p_deductions otherProfile)
         | None \<Rightarrow> received)
      else received)"

definition receivedFromOthersOf ::
  "(string \<rightharpoonup> bool) \<Rightarrow> Profile list \<Rightarrow> CalculationResult list \<Rightarrow> CalculationResult \<Rightarrow> real" where
  "receivedFromOthersOf ad profiles results result =
     foldl (receiveFromResult ad profiles (res_profileId result)) 0 results"

definition phase2 ::
  "(string \<rightharpoonup> bool) \<Rightarrow> Profile list \<Rightarrow> CalculationResult list \<Rightarrow> CalculationResult \<Rightarrow> CalculationResult" where
  "phase2 ad profiles results result =
     (let receivedFromOthers = receivedFromOthersOf ad profiles results result in
      result\<lparr>res_receivedFromOthers := receivedFromOthers,
             res_netAmount := res_netAmount result + receivedFromOthers\<rparr>)"

definition phase2Results :: "(string \<rightharpoonup> bool) \<Rightarrow> Profile list \<Rightarrow> HoursEntry list \<Rightarrow> CalculationResult list" where
  "phase2Results ad profiles es =
     map (phase2 ad (map sortProfile profiles) (phase1Results ad profiles es))
       (phase1Results ad profiles es)"

text \<open>
  A deduction of profile \<open>p\<close> has a valid recipient when its \<open>recipientProfileId\<close> names
  a profile of the list other than \<open>p\<close> itself.
\<close>

definition validRecipient :: "Profile list \<Rightarrow> Profile \<Rightarrow> Deduction \<Rightarrow> bool" where
  "validRecipient profiles p d =
     (case d_recipientProfileId d of
        None \<Rightarrow> False
      | Some r \<Rightarrow> r \<noteq> p_id p \<and> r \<in> set (map p_id profiles))"

text \<open>
  The amounts of profile \<open>p\<close>'s phase-1 breakdown whose deduction has no valid recipient,
  summed. The breakdown lists the sorted deductions in order.
\<close>

definition unreceivedAmount :: "(string \<rightharpoonup> bool) \<Rightarrow> Profile list \<Rightarrow> HoursEntry list \<Rightarrow> Profile \<Rightarrow> real" where
  "unreceivedAmount ad profiles es p =
     sum_list (map (\<lambda>(d, b). if validRecipient profiles p d then 0 else b_amount b)
                 (zip (sortedDeductions p) (res_deductionBreakdown (phase1 ad es p))))"

text \<open>
  The amounts of profile \<open>p\<close>'s phase-1 breakdown whose deduction has a valid
  recipient, summed.
\<close>

definition transferredAmount :: "(string \<rightharpoonup> bool) \<Rightarrow> Profile list \<Rightarrow> HoursEntry list \<Rightarrow> Profile \<Rightarrow> real" where
  "transferredAmount ad profiles es p =
     sum_list (map (\<lambda>(d, b). if validRecipient profiles p d then b_amount b else 0)
                 (zip (sortedDeductions p) (res_deductionBreakdown (phase1 ad es p))))"

text \<open>
  What the deductions of profile \<open>q\<close> hand to profile \<open>P\<close>: the amounts of \<open>q\<close>'s phase-1
  breakdown whose deduction names \<open>P\<close> as its recipient, summed, and nothing when \<open>q\<close>
  has the id of \<open>P\<close>. What \<open>P\<close> receives is what all profiles of the list hand to it.
\<close>

definition transfersTo :: "(string \<rightharpoonup> bool) \<Rightarrow> HoursEntry list \<Rightarrow> Profile \<Rightarrow> Profile \<Rightarrow> real" where
  "transfersTo ad es q P =
     sum_list (map (\<lambda>(d, b). if p_id q \<noteq> p_id P \<and> d_recipientProfileId d = Some (p_id P)
                             then b_amount b else 0)
                 (zip (sortedDeductions q) (res_deductionBreakdown (phase1 ad es q))))"

definition receivedAmount :: "(string \<rightharpoonup> bool) \<Rightarrow> Profile list \<Rightarrow> HoursEntry list \<Rightarrow> Profile \<Rightarrow> real" where
  "receivedAmount ad profiles es P = sum_list (map (\<lambda>q. transfersTo ad es q P) profiles)"

section \<open>Aggregator (transfer variant)\<close>

text \<open>
  JavaScript's division yields \<open>NaN\<close> or an infinity when the divisor is 0; \<open>None\<close>
  stands for such a value, and multiplying it gives such a value again.
\<close>

definition js_div :: "real \<Rightarrow> real \<Rightarrow> real option" where
  "js_div a b = (if b = 0 then None else Some (a / b))"

definition js_times :: "real option \<Rightarrow> real \<Rightarrow> real option" where
  "js_times q c = map_option (\<lambda>v. v * c) q"

record ClientPayment =
  cp_totalAmount :: real
  cp_totalHours :: real
  cp_averageRate :: "real option"

record PaymentDistribution =
  pd_profileId :: string
  pd_profileName :: string
  pd_amount :: real
  pd_percentage :: "real option"

definition totalOf :: "('a \<Rightarrow> real) \<Rightarrow> 'a list \<Rightarrow> real" where
  "totalOf f results = foldl (\<lambda>sum result. sum + f result) 0 results"

definition averageRateOf :: "real \<Rightarrow> real \<Rightarrow> real option" where
  "averageRateOf totalAmount totalHours =
     (if totalHours > 0 then js_div totalAmount totalHours else Some 0)"

definition clientPaymentOf :: "CalculationResult list \<Rightarrow> ClientPayment" where
  "clientPaymentOf results =
     (let totalAmount = totalOf res_grossAmount results;
          totalHours = totalOf res_totalHours results
      in \<lparr>cp_totalAmount = totalAmount, cp_totalHours = totalHours,
          cp_averageRate = averageRateOf totalAmount totalHours\<rparr>)"

definition percentageOf :: "real \<Rightarrow> real \<Rightarrow> real option" where
  "percentageOf netAmount totalNetAmount =
     (if totalNetAmount > 0 then js_times (js_div netAmount totalNetAmount) 100 else Some 0)"

definition paymentDistributionOf :: "CalculationResult list \<Rightarrow> PaymentDistribution list" where
  "paymentDistributionOf results =
     (let totalNetAmount = totalOf res_netAmount results in
      map (\<lambda>result. \<lparr>pd_profileId = res_profileId result,
                      pd_profileName = res_profileName result,
                      pd_amount = res_netAmount result,
                      pd_percentage = percentageOf (res_netAmount result) totalNetAmount\<rparr>)
        results)"

text \<open>The three pieces of state that \<open>calculateTotals\<close> sets.\<close>

record Totals =
  t_calculations :: "CalculationResult list"
  t_clientPayment :: ClientPayment
  t_paymentDistribution :: "PaymentDistribution list"

definition calculateTotals :: "(string \<rightharpoonup> bool) \<Rightarrow> Profile list \<Rightarrow> HoursEntry list \<Rightarrow> Totals" where
  "calculateTotals ad profiles es =
     (let results = phase2Results ad profiles es in
      \<lparr>t_calculations = results,
       t_clientPayment = clientPaymentOf results,
       t_paymentDistribution = paymentDistributionOf results\<rparr>)"

section \<open>Applied-state map: initialisation and toggling\<close>

text \<open>
  The effect that runs when the profiles change: with at least one profile, every key
  of a deduction of a profile that the map does not hold yet is stored as \<open>true\<close>.
\<close>

definition initDeduction :: "Profile \<Rightarrow> (string \<rightharpoonup> bool) \<Rightarrow> Deduction \<Rightarrow> (string \<rightharpoonup> bool)" where
  "initDeduction p newAppliedDeductions d =
     (if newAppliedDeductions (deductionKey (p_id p) (d_id d)) = None
      then newAppliedDeductions(deductionKey (p_id p) (d_id d) \<mapsto> True)
      else newAppliedDeductions)"

definition initProfile :: "(string \<rightharpoonup> bool) \<Rightarrow> Profile \<Rightarrow> (string \<rightharpoonup> bool)" where
  "initProfile newAppliedDeductions p = foldl (initDeduction p) newAppliedDeductions (p_deductions p)"

definition initAppliedDeductions :: "Profile list \<Rightarrow> (string \<rightharpoonup> bool) \<Rightarrow> (string \<rightharpoonup> bool)" where
  "initAppliedDeductions profiles ad =
     (if length profiles > 0 then foldl initProfile ad profiles else ad)"

text \<open>
  \<open>toggleDeduction\<close> of the transfer variant stores \<open>!prev[deductionKey]\<close>; an absent
  key reads as \<open>undefined\<close>, whose negation is \<open>true\<close>.
\<close>

definition toggleDeduction :: "string \<Rightarrow> string \<Rightarrow> (string \<rightharpoonup> bool) \<Rightarrow> (string \<rightharpoonup> bool)" where
  "toggleDeduction pid did prev =
     prev(deductionKey pid did \<mapsto>
       (case prev (deductionKey pid did) of None \<Rightarrow> True | Some b \<Rightarrow> \<not> b))"

section \<open>Deduction processor, independent mode (client-rate and step-by-step variants)\<close>

text \<open>
  The client-rate variant reads the applied state as the transfer variant does
  (\<open>!== false\<close>); the step-by-step variant reads \<open>appliedDeductions[deductionKey] === true\<close>.
\<close>

definition isAppliedStrict :: "(string \<rightharpoonup> bool) \<Rightarrow> string \<Rightarrow> string \<Rightarrow> bool" where
  "isAppliedStrict ad pid did = (ad (deductionKey pid did) = Some True)"

record PlainBreakdown =
  pb_deductionId :: string
  pb_deductionName :: string
  pb_amount :: real
  pb_type :: deduction_type

definition independentAmount :: "bool \<Rightarrow> real \<Rightarrow> Deduction \<Rightarrow> real" where
  "independentAmount applied grossAmount d =
     (if applied
      then (if d_type d = Percentage then (grossAmount * d_amount d) / 100 else d_amount d)
      else 0)"

text \<open>
  The \<open>map\<close> callback of these variants, with the closure variable \<open>totalDeductions\<close>
  passed along. \<open>applied\<close> is the variant's test on the deduction's id.
\<close>

fun processIndependent ::
  "(string \<Rightarrow> bool) \<Rightarrow> real \<Rightarrow> real \<Rightarrow> Deduction list \<Rightarrow> PlainBreakdown list \<times> real" where
  "processIndependent applied grossAmount totalDeductions [] = ([], totalDeductions)"
| "processIndependent applied grossAmount totalDeductions (d # rest) =
     (let amount = independentAmount (applied (d_id d)) grossAmount d;
          (bs, final) = processIndependent applied grossAmount (totalDeductions + amount) rest
      in (\<lparr>pb_deductionId = d_id d, pb_deductionName = d_name d, pb_amount = amount,
           pb_type = d_type d\<rparr> # bs, final))"

definition clientRateDeductions ::
  "(string \<rightharpoonup> bool) \<Rightarrow> Profile \<Rightarrow> HoursEntry list \<Rightarrow> PlainBreakdown list \<times> real" where
  "clientRateDeductions ad p es =
     processIndependent (isApplied ad (p_id p)) (grossAmountOf p es) 0 (sortedDeductions p)"

definition stepByStepDeductions ::
  "(string \<rightharpoonup> bool) \<Rightarrow> Profile \<Rightarrow> HoursEntry list \<Rightarrow> PlainBreakdown list \<times> real" where
  "stepByStepDeductions ad p es =
     processIndependent (isAppliedStrict ad (p_id p)) (grossAmountOf p es) 0 (sortedDeductions p)"

section \<open>Revenue and margin calculator (client-rate variant)\<close>

text \<open>\<open>Array.prototype.findIndex\<close>: the index of the first match, or -1.\<close>

fun findIndex :: "('a \<Rightarrow> bool) \<Rightarrow> 'a list \<Rightarrow> int" where
  "findIndex P [] = - 1"
| "findIndex P (x # xs) =
     (if P x then 0 else (let i = findIndex P xs in if i < 0 then - 1 else i + 1))"

text \<open>\<open>Number.prototype.toString\<close> on an integer: its decimal digits.\<close>

definition digitChar :: "nat \<Rightarrow> char" where
  "digitChar n = ''0123456789'' ! (n mod 10)"

fun natToString :: "nat \<Rightarrow> string" where
  "natToString n =
     (if n < 10 then [digitChar n] else natToString (n div 10) @ [digitChar (n mod 10)])"

definition intToString :: "int \<Rightarrow> string" where
  "intToString i = (if i < 0 then CHR ''-'' # natToString (nat (- i)) else natToString (nat i))"

text \<open>
  The client rate of an hourly rate: the first client rate whose \<open>employeeRateId\<close> is
  the decimal string of the hourly rate's index in the profile's rate list.
\<close>

definition findClientRate :: "Profile \<Rightarrow> HourlyRate \<Rightarrow> ClientRate option" where
  "findClientRate p hourlyRate =
     find (\<lambda>rate. cr_employeeRateId rate =
                    intToString (findIndex (\<lambda>hr. hr_id hr = hr_id hourlyRate) (p_hourlyRates p)))
       (p_clientRates p)"

definition clientPaymentStep :: "Profile \<Rightarrow> real \<Rightarrow> HoursEntry \<Rightarrow> real" where
  "clientPaymentStep p clientPayment e =
     (case findHourlyRate p e of
        None \<Rightarrow> clientPayment
      | Some hourlyRate \<Rightarrow>
          (case findClientRate p hourlyRate of
             Some clientRate \<Rightarrow> clientPayment + e_hours e * cr_rate clientRate
           | None \<Rightarrow> clientPayment + e_hours e * hr_rate hourlyRate * 2))"

record DistributionAmount =
  da_name :: string
  da_amount :: real
  da_percentage :: real

record RevenueBreakdown =
  rb_clientPayment :: real
  rb_employeePayment :: real
  rb_profitMargin :: real
  rb_profitDistribution :: "DistributionAmount list"

definition distributionAmountOf :: "real \<Rightarrow> real \<Rightarrow> ProfitDistribution \<Rightarrow> DistributionAmount" where
  "distributionAmountOf employeePayment profitMargin pd =
     \<lparr>da_name = dist_name pd,
      da_amount = (if dist_type pd = Margin
                   then (employeePayment * dist_percentage pd) / 100
                   else (profitMargin * dist_percentage pd) / 100),
      da_percentage = dist_percentage pd\<rparr>"

definition calculateRevenueBreakdown :: "Profile \<Rightarrow> HoursEntry list \<Rightarrow> real \<Rightarrow> RevenueBreakdown" where
  "calculateRevenueBreakdown p entries employeePayment =
     (let summed = foldl (clientPaymentStep p) 0 entries;
          clientPayment = (if summed = 0 then employeePayment * 2 else summed);
          profitMargin = clientPayment - employeePayment
      in \<lparr>rb_clientPayment = clientPayment, rb_employeePayment = employeePayment,
          rb_profitMargin = profitMargin,
          rb_profitDistribution =
            map (distributionAmountOf employeePayment profitMargin) (p_profitDistributions p)\<rparr>)"

record RevenueCalculationResult =
  rres_profileId :: string
  rres_profileName :: string
  rres_totalHours :: real
  rres_grossAmount :: real
  rres_totalDeductions :: real
  rres_netAmount :: real
  rres_deductionBreakdown :: "PlainBreakdown list"
  rres_revenueBreakdown :: RevenueBreakdown

text \<open>\<open>calculateTotals\<close> of the client-rate variant, for one profile.\<close>

definition revenueResult :: "(string \<rightharpoonup> bool) \<Rightarrow> HoursEntry list \<Rightarrow> Profile \<Rightarrow> RevenueCalculationResult" where
  "revenueResult ad es p =
     (let grossAmount = grossAmountOf p es;
          (deductionBreakdown, totalDeductions) = clientRateDeductions ad p es
      in \<lparr>rres_profileId = p_id p, rres_profileName = p_name p,
          rres_totalHours = totalHoursOf p es, rres_grossAmount = grossAmount,
          rres_totalDeductions = totalDeductions,
          rres_netAmount = grossAmount - totalDeductions,
          rres_deductionBreakdown = deductionBreakdown,
          rres_revenueBreakdown =
            calculateRevenueBreakdown p (profileEntries p es) grossAmount\<rparr>)"

text \<open>
  The aggregator of the client-rate variant divides each net amount by the total
  client payment.
\<close>

definition revenueClientPaymentOf :: "RevenueCalculationResult list \<Rightarrow> ClientPayment" where
  "revenueClientPaymentOf results =
     (let totalClientPayment = totalOf (\<lambda>r. rb_clientPayment (rres_revenueBreakdown r)) results;
          totalHours = totalOf rres_totalHours results
      in \<lparr>cp_totalAmount = totalClientPayment, cp_totalHours = totalHours,
          cp_averageRate = averageRateOf totalClientPayment totalHours\<rparr>)"

definition revenueDistributionOf :: "RevenueCalculationResult list \<Rightarrow> PaymentDistribution list" where
  "revenueDistributionOf results =
     (let totalClientPayment = totalOf (\<lambda>r. rb_clientPayment (rres_revenueBreakdown r)) results in
      map (\<lambda>result. \<lparr>pd_profileId = rres_profileId result,
                      pd_profileName = rres_profileName result,
                      pd_amount = rres_netAmount result,
                      pd_percentage = percentageOf (rres_netAmount result) totalClientPayment\<rparr>)
        results)"

section \<open>The profit-share base as the specification words it\<close>

text \<open>
  The specification's base: from the gross amount, subtract the applied fixed deduction
  named "Salary" (amount times hours), then the applied percentage deduction named
  "MGMT Fee" (that percentage of the intermediate value). Here the type is part of the
  search, whereas \<open>salaryDeduction\<close> and \<open>mgmtFeeDeduction\<close> search by name and look at the
  type of what they found.
\<close>

definition specSalaryDeduction :: "(string \<rightharpoonup> bool) \<Rightarrow> string \<Rightarrow> Deduction list \<Rightarrow> Deduction option" where
  "specSalaryDeduction ad pid ds =
     find (\<lambda>d. isApplied ad pid (d_id d) \<and> d_type d = Fixed \<and> str_includes (d_name d) ''Salary'') ds"

definition specMgmtFeeDeduction :: "(string \<rightharpoonup> bool) \<Rightarrow> string \<Rightarrow> Deduction list \<Rightarrow> Deduction option" where
  "specMgmtFeeDeduction ad pid ds =
     find (\<lambda>d. isApplied ad pid (d_id d) \<and> d_type d = Percentage
               \<and> str_includes (d_name d) ''MGMT Fee'') ds"

definition specProfitShareBase :: "(string \<rightharpoonup> bool) \<Rightarrow> string \<Rightarrow> Deduction list \<Rightarrow> real \<Rightarrow> real \<Rightarrow> real" where
  "specProfitShareBase ad pid ds grossAmount totalHours =
     (let intermediate = grossAmount -
            (case specSalaryDeduction ad pid ds of
               Some s \<Rightarrow> d_amount s * totalHours | None \<Rightarrow> 0)
      in intermediate -
            (case specMgmtFeeDeduction ad pid ds of
               Some m \<Rightarrow> intermediate * (d_amount m / 100) | None \<Rightarrow> 0))"

section \<open>Scenarios\<close>

text \<open>
  Concrete inputs of the specification's scenarios and of the examples used below. No
  deduction is toggled in \<open>noToggles\<close>, the empty applied-state map.
\<close>

definition noToggles :: "string \<rightharpoonup> bool" where
  "noToggles = Map.empty"

definition standardRate :: "real \<Rightarrow> HourlyRate" where
  "standardRate r = \<lparr>hr_id = ''r1'', hr_label = ''Standard'', hr_rate = r\<rparr>"

definition worker :: "string \<Rightarrow> real \<Rightarrow> Deduction list \<Rightarrow> Profile" where
  "worker pid r ds =
     \<lparr>p_id = pid, p_name = pid, p_hourlyRates = [standardRate r], p_clientRates = [],
      p_profitDistributions = [], p_deductionType = Uurloon, p_deductions = ds\<rparr>"

definition deduction :: "string \<Rightarrow> string \<Rightarrow> deduction_type \<Rightarrow> real \<Rightarrow> real \<Rightarrow> Deduction" where
  "deduction did name ty amount priority =
     \<lparr>d_id = did, d_name = name, d_amount = amount, d_type = ty, d_priority = priority,
      d_appliesTo = Employee, d_recipientProfileId = None\<rparr>"

definition logged :: "string \<Rightarrow> string \<Rightarrow> string \<Rightarrow> real \<Rightarrow> HoursEntry" where
  "logged eid pid rid h =
     \<lparr>e_id = eid, e_profileId = pid, e_hourlyRateId = rid, e_hours = h,
      e_description = None\<rparr>"

text \<open>
  Scenario C: 10 hours at rate 10, a fixed deduction of 2 per hour with priority 0 and a
  percentage deduction of 10 with priority 1.
\<close>

definition scenarioC :: Profile where
  "scenarioC = worker ''p1'' 10
     [deduction ''d1'' ''Tax'' Fixed 2 0, deduction ''d2'' ''Pension'' Percentage 10 1]"

definition scenarioC_hours :: "HoursEntry list" where
  "scenarioC_hours = [logged ''e1'' ''p1'' ''r1'' 10]"

text \<open>
  Entries for the gross calculator: one of profile \<open>p1\<close> at its rate, one of \<open>p1\<close> whose
  rate id names no rate, and one of another profile; and a list in which no entry of
  \<open>p1\<close> names a rate.
\<close>

definition mixedHours :: "HoursEntry list" where
  "mixedHours = [logged ''e1'' ''p1'' ''r1'' 3, logged ''e2'' ''p1'' ''gone'' 5,
                 logged ''e3'' ''p2'' ''r1'' 2]"

definition unmatchedHours :: "HoursEntry list" where
  "unmatchedHours = [logged ''e1'' ''p1'' ''gone'' 5, logged ''e2'' ''p2'' ''r1'' 2]"

text \<open>
  Deductions given with priorities 2, 0, 1, and deductions of which the first and the
  third share a priority.
\<close>

definition priorities201 :: Profile where
  "priorities201 = worker ''p1'' 10
     [deduction ''a'' ''Tax'' Fixed 1 2, deduction ''b'' ''Pension'' Fixed 1 0,
      deduction ''c'' ''Union'' Fixed 1 1]"

definition tiedPriorities :: Profile where
  "tiedPriorities = worker ''p1'' 10
     [deduction ''a'' ''Tax'' Fixed 1 1, deduction ''b'' ''Pension'' Fixed 1 0,
      deduction ''c'' ''Union'' Fixed 1 1]"

section \<open>First matches\<close>

text \<open>
  The first of the applied deductions of \<open>ds\<close> whose name includes \<open>word\<close>; the other
  matches are dropped. The two terms that such a first match subtracts from the
  profit-share base: a "Salary" match subtracts only when it is fixed, a "MGMT Fee"
  match only when it is a percentage, then of the value \<open>v\<close> it is applied to.
\<close>

definition firstApplied :: "(string \<rightharpoonup> bool) \<Rightarrow> string \<Rightarrow> string \<Rightarrow> Deduction list \<Rightarrow> Deduction option" where
  "firstApplied ad pid word ds =
     (case filter (\<lambda>d. isApplied ad pid (d_id d) \<and> str_includes (d_name d) word) ds of
        [] \<Rightarrow> None
      | d # others \<Rightarrow> Some d)"

definition salaryTerm :: "(string \<rightharpoonup> bool) \<Rightarrow> string \<Rightarrow> Deduction list \<Rightarrow> real \<Rightarrow> real" where
  "salaryTerm ad pid ds totalHours =
     (case firstApplied ad pid ''Salary'' ds of
        None \<Rightarrow> 0
      | Some s \<Rightarrow> (if d_type s = Fixed then d_amount s * totalHours else 0))"

definition mgmtFeeTerm :: "(string \<rightharpoonup> bool) \<Rightarrow> string \<Rightarrow> Deduction list \<Rightarrow> real \<Rightarrow> real" where
  "mgmtFeeTerm ad pid ds v =
     (case firstApplied ad pid ''MGMT Fee'' ds of
        None \<Rightarrow> 0
      | Some m \<Rightarrow> (if d_type m = Percentage then (v * d_amount m) / 100 else 0))"

text \<open>
  Two "Salary" and two "MGMT Fee" deductions, the "Salary" of lower priority first in
  the input; and a profile whose first "Salary" match is a percentage.
\<close>

definition doubledRoles :: Profile where
  "doubledRoles = worker ''p1'' 10
     [deduction ''s1'' ''Salary A'' Fixed 3 1, deduction ''s2'' ''Salary B'' Fixed 2 0,
      deduction ''m1'' ''MGMT Fee'' Percentage 10 2, deduction ''m2'' ''MGMT Fee extra'' Percentage 50 3,
      deduction ''ps'' ''Profit Share'' Percentage 50 4]"

definition percentageSalary :: Profile where
  "percentageSalary = worker ''p1'' 10
     [deduction ''b'' ''Salary Bonus'' Percentage 5 0, deduction ''s'' ''Salary'' Fixed 2 1,
      deduction ''ps'' ''Profit Share'' Percentage 50 2]"

definition oneSalary :: Profile where
  "oneSalary = worker ''p1'' 10
     [deduction ''s'' ''Salary'' Fixed 2 0, deduction ''m'' ''MGMT Fee'' Percentage 10 1,
      deduction ''ps'' ''Profit Share'' Percentage 50 2]"

section \<open>Aggregator (basic variant)\<close>

text \<open>
  The basic variant has neither an applied-state map nor transfers; its aggregator
  divides each net amount by the total of the gross amounts.
\<close>

record BasicResult =
  bres_profileId :: string
  bres_profileName :: string
  bres_totalHours :: real
  bres_grossAmount :: real
  bres_totalDeductions :: real
  bres_netAmount :: real
  bres_deductionBreakdown :: "PlainBreakdown list"

definition basicClientPaymentOf :: "BasicResult list \<Rightarrow> ClientPayment" where
  "basicClientPaymentOf results =
     (let totalAmount = totalOf bres_grossAmount results;
          totalHours = totalOf bres_totalHours results
      in \<lparr>cp_totalAmount = totalAmount, cp_totalHours = totalHours,
          cp_averageRate = averageRateOf totalAmount totalHours\<rparr>)"

definition basicDistributionOf :: "BasicResult list \<Rightarrow> PaymentDistribution list" where
  "basicDistributionOf results =
     (let totalAmount = totalOf bres_grossAmount results in
      map (\<lambda>result. \<lparr>pd_profileId = bres_profileId result,
                      pd_profileName = bres_profileName result,
                      pd_amount = bres_netAmount result,
                      pd_percentage = percentageOf (bres_netAmount result) totalAmount\<rparr>)
        results)"

section \<open>Scenarios of the aggregator and of the revenue calculator\<close>

text \<open>
  A profile whose fixed deduction of 15 per hour exceeds its rate of 10, and one whose
  fixed deduction of 10 per hour equals it, each with one hour logged. Scenario E: no
  client rate, a worker rate of 25 and 4 hours.
\<close>

definition overdrawn :: Profile where
  "overdrawn = worker ''p1'' 10 [deduction ''d1'' ''Advance'' Fixed 15 0]"

definition fullyDeducted :: Profile where
  "fullyDeducted = worker ''p1'' 10 [deduction ''d1'' ''Advance'' Fixed 10 0]"

definition oneHour :: "HoursEntry list" where
  "oneHour = [logged ''e1'' ''p1'' ''r1'' 1]"

definition scenarioE :: Profile where
  "scenarioE = worker ''p1'' 25 []"

definition scenarioE_hours :: "HoursEntry list" where
  "scenarioE_hours = [logged ''e1'' ''p1'' ''r1'' 4]"

text \<open>Two profiles with net amounts 72 and 28.\<close>

definition twoWorkers :: "Profile list" where
  "twoWorkers = [scenarioC, worker ''p2'' 7 []]"

definition twoWorkers_hours :: "HoursEntry list" where
  "twoWorkers_hours = [logged ''e1'' ''p1'' ''r1'' 10, logged ''e2'' ''p2'' ''r1'' 4]"

definition basicPair :: "BasicResult list" where
  "basicPair =
     [\<lparr>bres_profileId = ''p1'', bres_profileName = ''p1'', bres_totalHours = 10,
       bres_grossAmount = 100, bres_totalDeductions = 40, bres_netAmount = 60,
       bres_deductionBreakdown = []\<rparr>,
      \<lparr>bres_profileId = ''p2'', bres_profileName = ''p2'', bres_totalHours = 10,
       bres_grossAmount = 100, bres_totalDeductions = 0, bres_netAmount = 100,
       bres_deductionBreakdown = []\<rparr>]"

text \<open>
  The applied-state map after the initialisation effect has seen scenario C's profile
  and its fixed deduction \<open>d1\<close> has then been toggled.
\<close>

definition taxOff :: "string \<rightharpoonup> bool" where
  "taxOff = toggleDeduction ''p1'' ''d1'' (initAppliedDeductions [scenarioC] noToggles)"

text \<open>
  Scenario D, with a second deduction added: profile \<open>pA\<close> (one hour at rate 50) has a
  fixed deduction of 15 per hour whose recipient is profile \<open>pB\<close> and a fixed deduction of
  5 per hour whose recipient names no profile; profile \<open>pB\<close> has one hour at rate 20.
\<close>

definition scenarioD :: "Profile list" where
  "scenarioD =
     [worker ''pA'' 50
        [(deduction ''d1'' ''Fee'' Fixed 15 0)\<lparr>d_recipientProfileId := Some ''pB''\<rparr>,
         (deduction ''d2'' ''Levy'' Fixed 5 1)\<lparr>d_recipientProfileId := Some ''gone''\<rparr>],
      worker ''pB'' 20 []]"

definition scenarioD_hours :: "HoursEntry list" where
  "scenarioD_hours = [logged ''e1'' ''pA'' ''r1'' 1, logged ''e2'' ''pB'' ''r1'' 1]"

text \<open>Three hours logged by a profile that is not in the list of profiles.\<close>

definition othersHours :: "HoursEntry list" where
  "othersHours = [logged ''e9'' ''p9'' ''r1'' 3]"

text \<open>
  Profile \<open>pA\<close> has five hours logged at a rate id that names none of its rates, a fixed
  deduction of 2 per hour whose recipient is profile \<open>pB\<close>, and a percentage deduction
  of 10; profile \<open>pB\<close> has nothing logged.
\<close>

definition danglingRate :: "Profile list" where
  "danglingRate =
     [worker ''pA'' 10
        [(deduction ''d1'' ''Fee'' Fixed 2 0)\<lparr>d_recipientProfileId := Some ''pB''\<rparr>,
         deduction ''d2'' ''Pension'' Percentage 10 1],
      worker ''pB'' 20 []]"

definition danglingRate_hours :: "HoursEntry list" where
  "danglingRate_hours = [logged ''e1'' ''pA'' ''gone'' 5]"

section \<open>Properties of the gross calculator\<close>

lemma foldl_grossStep:
  "foldl (grossStep p) g es = g + sum_list (map (entryPay p) es)"
  by (induction es arbitrary: g)
     (simp_all add: grossStep_def entryPay_def split: option.split)

lemma grossAmountOf_sum:
  "grossAmountOf p es = sum_list (map (entryPay p) (profileEntries p es))"
  by (simp add: grossAmountOf_def foldl_grossStep)

lemma sum_list_all_zero:
  "(\<forall>x \<in> set xs. f x = (0::real)) \<Longrightarrow> sum_list (map f xs) = 0"
  by (induction xs) simp_all

lemma scenario_simps:
  "p_id (worker pid r ds) = pid"
  "p_name (worker pid r ds) = pid"
  "p_hourlyRates (worker pid r ds) = [standardRate r]"
  "p_clientRates (worker pid r ds) = []"
  "p_profitDistributions (worker pid r ds) = []"
  "p_deductions (worker pid r ds) = ds"
  "hr_id (standardRate r) = ''r1''"
  "hr_rate (standardRate r) = r"
  "d_id (deduction did name ty amount priority) = did"
  "d_name (deduction did name ty amount priority) = name"
  "d_type (deduction did name ty amount priority) = ty"
  "d_amount (deduction did name ty amount priority) = amount"
  "d_priority (deduction did name ty amount priority) = priority"
  "d_recipientProfileId (deduction did name ty amount priority) = None"
  "e_profileId (logged eid pid rid h) = pid"
  "e_hourlyRateId (logged eid pid rid h) = rid"
  "e_hours (logged eid pid rid h) = h"
  by (simp_all add: worker_def standardRate_def deduction_def logged_def)

text \<open>
  C4. For every profile and every collection of time entries, the gross amount is the
  sum, over the profile's entries, of hours times the rate that the entry's rate id
  resolves to among the profile's hourly rates; an entry whose rate id resolves to no
  rate contributes zero. The gross amount is zero for no entries and when no entry of
  the profile resolves. The calculator is a total function: a failed lookup is a branch
  that adds nothing, and no step of it can throw.
\<close>

theorem grossAmount_correct:
  "grossAmountOf p es =
     (\<Sum>e\<leftarrow>profileEntries p es.
        case findHourlyRate p e of None \<Rightarrow> 0 | Some r \<Rightarrow> e_hours e * hr_rate r)
   \<and> grossAmountOf p [] = 0
   \<and> ((\<forall>e \<in> set (profileEntries p es). findHourlyRate p e = None) \<longrightarrow> grossAmountOf p es = 0)"
proof -
  have sum: "grossAmountOf p es =
      (\<Sum>e\<leftarrow>profileEntries p es.
         case findHourlyRate p e of None \<Rightarrow> 0 | Some r \<Rightarrow> e_hours e * hr_rate r)"
    unfolding grossAmountOf_sum entryPay_def ..
  have empty: "grossAmountOf p [] = 0"
    by (simp add: grossAmountOf_def profileEntries_def)
  have unmatched: "grossAmountOf p es = 0"
    if "\<forall>e \<in> set (profileEntries p es). findHourlyRate p e = None"
  proof -
    from that have "\<forall>e \<in> set (profileEntries p es). entryPay p e = 0"
      by (simp add: entryPay_def)
    then show ?thesis
      unfolding grossAmountOf_sum by (rule sum_list_all_zero)
  qed
  from sum empty unmatched show ?thesis by blast
qed

theorem grossAmount_correct_witness:
  "grossAmountOf (worker ''p1'' 10 []) mixedHours = 30
   \<and> map (findHourlyRate (worker ''p1'' 10 [])) (profileEntries (worker ''p1'' 10 []) unmatchedHours)
       = [None]
   \<and> grossAmountOf (worker ''p1'' 10 []) unmatchedHours = 0"
proof -
  have none: "\<forall>e \<in> set (profileEntries (worker ''p1'' 10 []) unmatchedHours).
      findHourlyRate (worker ''p1'' 10 []) e = None"
    by (simp add: profileEntries_def unmatchedHours_def findHourlyRate_def scenario_simps)
  have "grossAmountOf (worker ''p1'' 10 []) mixedHours = 30"
    using grossAmount_correct [of "worker ''p1'' 10 []" mixedHours]
    by (simp add: profileEntries_def mixedHours_def findHourlyRate_def scenario_simps)
  moreover have "grossAmountOf (worker ''p1'' 10 []) unmatchedHours = 0"
    using grossAmount_correct [of "worker ''p1'' 10 []" unmatchedHours] none by blast
  moreover have "map (findHourlyRate (worker ''p1'' 10 []))
      (profileEntries (worker ''p1'' 10 []) unmatchedHours) = [None]"
    by (simp add: profileEntries_def unmatchedHours_def findHourlyRate_def scenario_simps)
  ultimately show ?thesis by blast
qed

section \<open>Properties of the sequential deduction processor\<close>

lemma deductionAmount_not_applied:
  "\<not> isApplied ad pid (d_id d) \<Longrightarrow> deductionAmount ad pid ds g h r d = 0"
  by (simp add: deductionAmount_def)

lemma processDeductions_Cons:
  "processDeductions ad pid ds g h r (d # rest) =
     (breakdownOf d (deductionAmount ad pid ds g h r d)
        # fst (processDeductions ad pid ds g h (r - deductionAmount ad pid ds g h r d) rest),
      snd (processDeductions ad pid ds g h (r - deductionAmount ad pid ds g h r d) rest))"
  by (cases "isApplied ad pid (d_id d)")
     (simp_all add: Let_def deductionAmount_not_applied split: prod.split)

declare processDeductions.simps(2) [simp del]

declare processDeductions_Cons [simp]

lemma processDeductions_length:
  "length (fst (processDeductions ad pid ds g h r xs)) = length xs"
  by (induction xs arbitrary: r) simp_all

lemma processDeductions_ids:
  "map b_deductionId (fst (processDeductions ad pid ds g h r xs)) = map d_id xs"
  by (induction xs arbitrary: r) (simp_all add: breakdownOf_def)

lemma processDeductions_remaining:
  "snd (processDeductions ad pid ds g h r xs) =
     r - sum_list (map b_amount (fst (processDeductions ad pid ds g h r xs)))"
proof (induction xs arbitrary: r)
  case Nil
  show ?case by simp
next
  case (Cons d rest)
  show ?case
    by (simp add: Cons.IH breakdownOf_def)
qed

lemma processDeductions_nth:
  "i < length xs \<Longrightarrow>
   fst (processDeductions ad pid ds g h r xs) ! i =
     breakdownOf (xs ! i)
       (deductionAmount ad pid ds g h
          (r - sum_list (map b_amount (take i (fst (processDeductions ad pid ds g h r xs)))))
          (xs ! i))"
proof (induction xs arbitrary: r i)
  case Nil
  then show ?case by simp
next
  case (Cons d rest)
  show ?case
  proof (cases i)
    case 0
    then show ?thesis by simp
  next
    case (Suc j)
    with Cons.prems have j: "j < length rest" by simp
    show ?thesis
      unfolding Suc
      using Cons.IH [OF j, of "r - deductionAmount ad pid ds g h r d"]
      by (simp add: breakdownOf_def algebra_simps)
  qed
qed

lemma phase1_fields:
  "res_deductionBreakdown (phase1 ad es p) = fst (sequentialDeductions ad p es)"
  "res_netAmount (phase1 ad es p) = snd (sequentialDeductions ad p es)"
  "res_grossAmount (phase1 ad es p) = grossAmountOf p es"
  "res_totalHours (phase1 ad es p) = totalHoursOf p es"
  "res_profileId (phase1 ad es p) = p_id p"
  "res_totalDeductions (phase1 ad es p) = grossAmountOf p es - snd (sequentialDeductions ad p es)"
  by (simp_all add: phase1_def split: prod.split)

lemma breakdown_nth:
  assumes "i < length (sortedDeductions p)"
  shows "res_deductionBreakdown (phase1 ad es p) ! i =
     breakdownOf (sortedDeductions p ! i)
       (deductionAmount ad (p_id p) (sortedDeductions p) (grossAmountOf p es) (totalHoursOf p es)
          (grossAmountOf p es
             - sum_list (map b_amount (take i (res_deductionBreakdown (phase1 ad es p)))))
          (sortedDeductions p ! i))"
  unfolding phase1_fields sequentialDeductions_def
  by (rule processDeductions_nth [OF assms])

lemma b_amount_breakdownOf: "b_amount (breakdownOf d a) = a"
  by (simp add: breakdownOf_def)

lemma netAmount_phase1:
  "res_netAmount (phase1 ad es p) =
     grossAmountOf p es - sum_list (map b_amount (res_deductionBreakdown (phase1 ad es p)))"
  unfolding phase1_fields sequentialDeductions_def
  by (rule processDeductions_remaining)

text \<open>
  C1. In sequential mode, let the deductions of a profile be taken in processing order
  and let deduction \<open>i\<close> be applied. If it is fixed, its amount in the breakdown is its
  own amount times the profile's total hours. If it is a percentage whose name does not
  include "Profit Share", its amount is that percentage of the running remaining
  amount, which is the gross amount less the amounts of the deductions before it. Every
  amount is subtracted from the running remaining amount: the net amount is the gross
  amount less all amounts of the breakdown. Scenario C is checked after it.
\<close>

theorem sequential_amounts:
  assumes "i < length (sortedDeductions p)"
      and "isApplied ad (p_id p) (d_id (sortedDeductions p ! i))"
  shows "(d_type (sortedDeductions p ! i) = Fixed \<longrightarrow>
            b_amount (res_deductionBreakdown (phase1 ad es p) ! i) =
              d_amount (sortedDeductions p ! i) * totalHoursOf p es)
       \<and> (d_type (sortedDeductions p ! i) = Percentage
            \<and> \<not> str_includes (d_name (sortedDeductions p ! i)) ''Profit Share'' \<longrightarrow>
            b_amount (res_deductionBreakdown (phase1 ad es p) ! i) =
              (grossAmountOf p es
                 - sum_list (map b_amount (take i (res_deductionBreakdown (phase1 ad es p)))))
              * (d_amount (sortedDeductions p ! i) / 100))
       \<and> res_netAmount (phase1 ad es p) =
            grossAmountOf p es - sum_list (map b_amount (res_deductionBreakdown (phase1 ad es p)))"
proof -
  let ?d = "sortedDeductions p ! i"
  let ?bd = "res_deductionBreakdown (phase1 ad es p)"
  let ?r = "grossAmountOf p es - sum_list (map b_amount (take i ?bd))"
  have amt: "b_amount (?bd ! i) =
      appliedAmount ad (p_id p) (sortedDeductions p) (grossAmountOf p es) (totalHoursOf p es) ?r ?d"
    using assms(2) by (simp add: breakdown_nth [OF assms(1)] b_amount_breakdownOf deductionAmount_def)
  have fixed: "d_type ?d = Fixed \<longrightarrow> b_amount (?bd ! i) = d_amount ?d * totalHoursOf p es"
    by (simp add: amt appliedAmount_def)
  have pct: "d_type ?d = Percentage \<and> \<not> str_includes (d_name ?d) ''Profit Share'' \<longrightarrow>
      b_amount (?bd ! i) = ?r * (d_amount ?d / 100)"
    by (simp add: amt appliedAmount_def)
  from fixed pct netAmount_phase1 show ?thesis by blast
qed

theorem sequential_amounts_witness:
  "res_grossAmount (phase1 noToggles scenarioC_hours scenarioC) = 100
   \<and> map b_amount (res_deductionBreakdown (phase1 noToggles scenarioC_hours scenarioC)) = [20, 8]
   \<and> res_grossAmount (phase1 noToggles scenarioC_hours scenarioC)
        - b_amount (res_deductionBreakdown (phase1 noToggles scenarioC_hours scenarioC) ! 0) = 80
   \<and> res_netAmount (phase1 noToggles scenarioC_hours scenarioC) = 72"
proof -
  have sorted: "sortedDeductions scenarioC =
      [deduction ''d1'' ''Tax'' Fixed 2 0, deduction ''d2'' ''Pension'' Percentage 10 1]"
    by (simp add: sortedDeductions_def sortBy_def scenarioC_def scenario_simps)
  have applied: "isApplied noToggles pid did" for pid did
    by (simp add: isApplied_def noToggles_def)
  have gross: "grossAmountOf scenarioC scenarioC_hours = 100"
    by (simp add: grossAmountOf_def profileEntries_def grossStep_def findHourlyRate_def
        scenarioC_def scenarioC_hours_def scenario_simps)
  have hours: "totalHoursOf scenarioC scenarioC_hours = 10"
    by (simp add: totalHoursOf_def profileHours_def hoursStep_def scenarioC_def scenarioC_hours_def
        scenario_simps)
  have len: "length (res_deductionBreakdown (phase1 noToggles scenarioC_hours scenarioC)) = 2"
    by (simp add: phase1_fields sequentialDeductions_def processDeductions_length sorted)
  have first: "b_amount (res_deductionBreakdown (phase1 noToggles scenarioC_hours scenarioC) ! 0) = 20"
    using sequential_amounts [of 0 scenarioC noToggles scenarioC_hours]
    by (simp add: sorted applied hours scenario_simps)
  have second: "b_amount (res_deductionBreakdown (phase1 noToggles scenarioC_hours scenarioC) ! 1) = 8"
    using sequential_amounts [of 1 scenarioC noToggles scenarioC_hours] first len
    by (simp add: sorted applied gross scenario_simps take_Suc_conv_app_nth)
  have amounts: "map b_amount (res_deductionBreakdown (phase1 noToggles scenarioC_hours scenarioC))
      = [20, 8]"
    using len first second
    by (auto simp add: list_eq_iff_nth_eq less_Suc_eq numeral_2_eq_2)
  have net: "res_netAmount (phase1 noToggles scenarioC_hours scenarioC) = 72"
    using sequential_amounts [of 0 scenarioC noToggles scenarioC_hours]
    by (simp add: sorted applied amounts gross)
  from amounts net first gross show ?thesis
    by (simp add: phase1_fields)
qed

section \<open>Processing order of the deductions\<close>

lemma insertBy_difference: "insertBy (\<lambda>a b. f a - f b) x ys = insort_key f x ys"
  by (induction ys) simp_all

lemma sortBy_difference: "sortBy (\<lambda>a b. f a - f b) xs = sort_key f xs"
  by (induction xs) (simp_all add: sortBy_def insertBy_difference)

lemma sortedDeductions_sort_key: "sortedDeductions p = sort_key d_priority (p_deductions p)"
  by (simp add: sortedDeductions_def sortBy_difference)

lemma sortedDeductions_rearranged:
  assumes "mset (p_deductions p') = mset (p_deductions p)"
      and "distinct (map d_priority (p_deductions p))"
  shows "sortedDeductions p' = sortedDeductions p"
proof -
  from assms(1) have "set (p_deductions p') = set (p_deductions p)"
    by (rule mset_eq_setD)
  with assms(2) have inj: "inj_on d_priority (set (p_deductions p'))"
    by (simp add: distinct_map)
  have same: "mset (p_deductions p') = mset (sort_key d_priority (p_deductions p))"
    using assms(1) by simp
  have ascending: "sorted (map d_priority (sort_key d_priority (p_deductions p)))"
    by simp
  from same inj ascending
  have "sort_key d_priority (p_deductions p') = sort_key d_priority (p_deductions p)"
    by (rule sort_key_inj_key_eq)
  then show ?thesis by (simp add: sortedDeductions_sort_key)
qed

text \<open>
  C5. In sequential mode the breakdown lists the deductions in processing order, and
  that order is the profile's deductions sorted by ascending priority: it is ascending,
  it is a rearrangement of the input, and deductions of equal priority keep the order
  they had in the input. The order does not depend on the order of the input: two
  inputs that hold the same deductions, with pairwise different priorities, are
  processed in the same order. Deductions given with priorities 2, 0, 1 are processed
  as priority 0, 1, 2.
\<close>

theorem processing_order:
  "map b_deductionId (res_deductionBreakdown (phase1 ad es p)) = map d_id (sortedDeductions p)
   \<and> sorted (map d_priority (sortedDeductions p))
   \<and> mset (sortedDeductions p) = mset (p_deductions p)
   \<and> (\<forall>k. filter (\<lambda>d. d_priority d = k) (sortedDeductions p)
          = filter (\<lambda>d. d_priority d = k) (p_deductions p))
   \<and> (mset (p_deductions p') = mset (p_deductions p) \<and> distinct (map d_priority (p_deductions p))
        \<longrightarrow> sortedDeductions p' = sortedDeductions p)"
proof -
  have ids: "map b_deductionId (res_deductionBreakdown (phase1 ad es p)) = map d_id (sortedDeductions p)"
    by (simp add: phase1_fields sequentialDeductions_def processDeductions_ids)
  have ascending: "sorted (map d_priority (sortedDeductions p))"
    by (simp add: sortedDeductions_sort_key)
  have permutation: "mset (sortedDeductions p) = mset (p_deductions p)"
    by (simp add: sortedDeductions_sort_key)
  have stable: "filter (\<lambda>d. d_priority d = k) (sortedDeductions p)
      = filter (\<lambda>d. d_priority d = k) (p_deductions p)" for k
    unfolding sortedDeductions_sort_key by (rule sort_key_stable)
  from ids ascending permutation stable sortedDeductions_rearranged show ?thesis by blast
qed

theorem processing_order_witness:
  "map d_priority (p_deductions priorities201) = [2, 0, 1]
   \<and> map b_deductionId (res_deductionBreakdown (phase1 noToggles [] priorities201)) = [''b'', ''c'', ''a'']
   \<and> map d_priority (p_deductions tiedPriorities) = [1, 0, 1]
   \<and> map b_deductionId (res_deductionBreakdown (phase1 noToggles [] tiedPriorities)) = [''b'', ''a'', ''c'']
   \<and> map d_priority (rev (p_deductions priorities201)) = [1, 0, 2]
   \<and> sortedDeductions (priorities201\<lparr>p_deductions := rev (p_deductions priorities201)\<rparr>)
       = sortedDeductions priorities201"
proof -
  have given: "map d_priority (p_deductions priorities201) = [2, 0, 1]"
    "map d_priority (p_deductions tiedPriorities) = [1, 0, 1]"
    "map d_priority (rev (p_deductions priorities201)) = [1, 0, 2]"
    by (simp_all add: priorities201_def tiedPriorities_def scenario_simps)
  have order: "map d_id (sortedDeductions priorities201) = [''b'', ''c'', ''a'']"
    "map d_id (sortedDeductions tiedPriorities) = [''b'', ''a'', ''c'']"
    by (simp_all add: priorities201_def tiedPriorities_def sortedDeductions_def sortBy_def
        scenario_simps)
  have different: "distinct (map d_priority (p_deductions priorities201))"
    unfolding given by simp
  have same: "mset (p_deductions (priorities201\<lparr>p_deductions := rev (p_deductions priorities201)\<rparr>))
      = mset (p_deductions priorities201)"
    by simp
  from processing_order [of noToggles "[]" priorities201
      "priorities201\<lparr>p_deductions := rev (p_deductions priorities201)\<rparr>"] same different
  have "map b_deductionId (res_deductionBreakdown (phase1 noToggles [] priorities201))
        = [''b'', ''c'', ''a'']
      \<and> sortedDeductions (priorities201\<lparr>p_deductions := rev (p_deductions priorities201)\<rparr>)
        = sortedDeductions priorities201"
    unfolding order by blast
  moreover
  from processing_order [of noToggles "[]" tiedPriorities]
  have "map b_deductionId (res_deductionBreakdown (phase1 noToggles [] tiedPriorities))
        = [''b'', ''a'', ''c'']"
    unfolding order by blast
  ultimately show ?thesis using given by blast
qed


section \<open>Properties of the profit-share base\<close>

lemma find_filter_head:
  "find P xs = (case filter P xs of [] \<Rightarrow> None | x # others \<Rightarrow> Some x)"
  by (induction xs) simp_all

lemma salaryDeduction_first: "salaryDeduction ad pid ds = firstApplied ad pid ''Salary'' ds"
  unfolding salaryDeduction_def firstApplied_def by (rule find_filter_head)

lemma mgmtFeeDeduction_first: "mgmtFeeDeduction ad pid ds = firstApplied ad pid ''MGMT Fee'' ds"
  unfolding mgmtFeeDeduction_def firstApplied_def by (rule find_filter_head)

lemma afterSalary_term: "afterSalary ad pid ds g h = g - salaryTerm ad pid ds h"
  by (simp add: afterSalary_def salaryTerm_def salaryDeduction_first split: option.split)

lemma profitShareBase_terms:
  "profitShareBase ad pid ds g h =
     g - salaryTerm ad pid ds h - mgmtFeeTerm ad pid ds (g - salaryTerm ad pid ds h)"
  by (simp add: profitShareBase_def Let_def mgmtFeeTerm_def afterSalary_term mgmtFeeDeduction_first
      split: option.split)

lemma profitShare_amount:
  assumes "i < length (sortedDeductions p)"
      and "isApplied ad (p_id p) (d_id (sortedDeductions p ! i))"
      and "d_type (sortedDeductions p ! i) = Percentage"
      and "str_includes (d_name (sortedDeductions p ! i)) ''Profit Share''"
  shows "b_amount (res_deductionBreakdown (phase1 ad es p) ! i) =
     (profitShareBase ad (p_id p) (sortedDeductions p) (grossAmountOf p es) (totalHoursOf p es)
        * d_amount (sortedDeductions p ! i)) / 100"
  using assms(2-4)
  by (simp add: breakdown_nth [OF assms(1)] b_amount_breakdownOf deductionAmount_def
      appliedAmount_def)

text \<open>
  C10. For an applied percentage deduction whose name includes "Profit Share", the base
  is recomputed from the gross amount with two terms only. The salary term comes from
  the first applied deduction, in processing order (the deductions sorted by priority),
  whose name includes "Salary", and it is subtracted only if that deduction is fixed;
  the management-fee term comes from the first applied deduction whose name includes
  "MGMT Fee", and it is subtracted only if that deduction is a percentage. Later
  deductions with those names, and a first match of the other type, add nothing to
  either term.
\<close>

theorem profitShare_first_matches:
  assumes "i < length (sortedDeductions p)"
      and "isApplied ad (p_id p) (d_id (sortedDeductions p ! i))"
      and "d_type (sortedDeductions p ! i) = Percentage"
      and "str_includes (d_name (sortedDeductions p ! i)) ''Profit Share''"
  shows "b_amount (res_deductionBreakdown (phase1 ad es p) ! i) =
     ((grossAmountOf p es
        - salaryTerm ad (p_id p) (sortedDeductions p) (totalHoursOf p es)
        - mgmtFeeTerm ad (p_id p) (sortedDeductions p)
            (grossAmountOf p es - salaryTerm ad (p_id p) (sortedDeductions p) (totalHoursOf p es)))
       * d_amount (sortedDeductions p ! i)) / 100"
  unfolding profitShare_amount [OF assms] profitShareBase_terms ..

lemma hours10: "totalHoursOf (worker ''p1'' r ds) scenarioC_hours = 10"
  by (simp add: totalHoursOf_def profileHours_def hoursStep_def scenarioC_hours_def scenario_simps)

lemma gross100: "grossAmountOf (worker ''p1'' 10 ds) scenarioC_hours = 100"
  by (simp add: grossAmountOf_def profileEntries_def grossStep_def findHourlyRate_def
      scenarioC_hours_def scenario_simps)

lemma applied_noToggles: "isApplied noToggles pid did"
  by (simp add: isApplied_def noToggles_def)

lemma sorted_doubledRoles:
  "sortedDeductions doubledRoles =
     [deduction ''s2'' ''Salary B'' Fixed 2 0, deduction ''s1'' ''Salary A'' Fixed 3 1,
      deduction ''m1'' ''MGMT Fee'' Percentage 10 2, deduction ''m2'' ''MGMT Fee extra'' Percentage 50 3,
      deduction ''ps'' ''Profit Share'' Percentage 50 4]"
  by (simp add: sortedDeductions_def sortBy_def doubledRoles_def scenario_simps)

lemma sorted_percentageSalary:
  "sortedDeductions percentageSalary =
     [deduction ''b'' ''Salary Bonus'' Percentage 5 0, deduction ''s'' ''Salary'' Fixed 2 1,
      deduction ''ps'' ''Profit Share'' Percentage 50 2]"
  by (simp add: sortedDeductions_def sortBy_def percentageSalary_def scenario_simps)

theorem profitShare_first_matches_witness:
  "b_amount (res_deductionBreakdown (phase1 noToggles scenarioC_hours doubledRoles) ! 4) = 36
   \<and> b_amount (res_deductionBreakdown (phase1 noToggles scenarioC_hours percentageSalary) ! 2) = 50"
proof -
  have "b_amount (res_deductionBreakdown (phase1 noToggles scenarioC_hours doubledRoles) ! 4) = 36"
    using profitShare_first_matches [of 4 doubledRoles noToggles scenarioC_hours]
    unfolding sorted_doubledRoles
    by (simp add: applied_noToggles scenario_simps salaryTerm_def mgmtFeeTerm_def firstApplied_def
        doubledRoles_def hours10 gross100)
  moreover
  have "b_amount (res_deductionBreakdown (phase1 noToggles scenarioC_hours percentageSalary) ! 2) = 50"
    using profitShare_first_matches [of 2 percentageSalary noToggles scenarioC_hours]
    unfolding sorted_percentageSalary
    by (simp add: applied_noToggles scenario_simps salaryTerm_def mgmtFeeTerm_def firstApplied_def
        percentageSalary_def hours10 gross100)
  ultimately show ?thesis by blast
qed


text \<open>
  When the first applied "Salary" match is fixed and the first applied "MGMT Fee" match
  is a percentage, searching with the type and searching by name find the same
  deductions, and the base of the source is the base as the specification words it.
\<close>

lemma find_conj_first:
  assumes "case find P xs of None \<Rightarrow> True | Some x \<Rightarrow> Q x"
  shows "find (\<lambda>x. P x \<and> Q x) xs = find P xs"
  using assms by (induction xs) (simp_all split: if_splits)

lemma specSalaryDeduction_eq:
  assumes "case salaryDeduction ad pid ds of None \<Rightarrow> True | Some s \<Rightarrow> d_type s = Fixed"
  shows "specSalaryDeduction ad pid ds = salaryDeduction ad pid ds"
proof -
  have "specSalaryDeduction ad pid ds =
      find (\<lambda>d. (isApplied ad pid (d_id d) \<and> str_includes (d_name d) ''Salary'') \<and> d_type d = Fixed) ds"
    unfolding specSalaryDeduction_def by (rule arg_cong [where f = "\<lambda>P. find P ds"]) auto
  also have "\<dots> = salaryDeduction ad pid ds"
    unfolding salaryDeduction_def
    by (rule find_conj_first) (use assms in \<open>simp add: salaryDeduction_def\<close>)
  finally show ?thesis .
qed

lemma specMgmtFeeDeduction_eq:
  assumes "case mgmtFeeDeduction ad pid ds of None \<Rightarrow> True | Some m \<Rightarrow> d_type m = Percentage"
  shows "specMgmtFeeDeduction ad pid ds = mgmtFeeDeduction ad pid ds"
proof -
  have "specMgmtFeeDeduction ad pid ds =
      find (\<lambda>d. (isApplied ad pid (d_id d) \<and> str_includes (d_name d) ''MGMT Fee'')
                \<and> d_type d = Percentage) ds"
    unfolding specMgmtFeeDeduction_def by (rule arg_cong [where f = "\<lambda>P. find P ds"]) auto
  also have "\<dots> = mgmtFeeDeduction ad pid ds"
    unfolding mgmtFeeDeduction_def
    by (rule find_conj_first) (use assms in \<open>simp add: mgmtFeeDeduction_def\<close>)
  finally show ?thesis .
qed

lemma specProfitShareBase_eq:
  assumes "case salaryDeduction ad pid ds of None \<Rightarrow> True | Some s \<Rightarrow> d_type s = Fixed"
      and "case mgmtFeeDeduction ad pid ds of None \<Rightarrow> True | Some m \<Rightarrow> d_type m = Percentage"
  shows "specProfitShareBase ad pid ds g h = profitShareBase ad pid ds g h"
  using assms
  by (simp add: specProfitShareBase_def profitShareBase_def afterSalary_def Let_def
      specSalaryDeduction_eq specMgmtFeeDeduction_eq split: option.splits)

text \<open>
  C2, as amended. In sequential mode, take a profile in which the first applied deduction
  whose name includes "Salary", if there is one, is fixed, and the first applied
  deduction whose name includes "MGMT Fee", if there is one, is a percentage. Then an
  applied percentage deduction whose name includes "Profit Share" contributes its
  percentage of the base the specification describes: the gross amount, less the
  applied fixed "Salary" deduction's amount times the total hours, less the applied
  percentage "MGMT Fee" deduction's percentage of that intermediate value. The amount
  does not depend on the running remaining amount, and it is subtracted from it like
  every other amount. Without the condition on the first matches the statement fails:
  with a percentage "Salary Bonus" ahead of a fixed "Salary" of 2 per hour, 10 hours at
  rate 10 and a profit share of 50 percent, the source yields 50 where the specification's
  base yields 40.
\<close>

theorem profitShare_spec_base:
  assumes "i < length (sortedDeductions p)"
      and "isApplied ad (p_id p) (d_id (sortedDeductions p ! i))"
      and "d_type (sortedDeductions p ! i) = Percentage"
      and "str_includes (d_name (sortedDeductions p ! i)) ''Profit Share''"
      and "case salaryDeduction ad (p_id p) (sortedDeductions p) of
             None \<Rightarrow> True | Some s \<Rightarrow> d_type s = Fixed"
      and "case mgmtFeeDeduction ad (p_id p) (sortedDeductions p) of
             None \<Rightarrow> True | Some m \<Rightarrow> d_type m = Percentage"
  shows "b_amount (res_deductionBreakdown (phase1 ad es p) ! i) =
           specProfitShareBase ad (p_id p) (sortedDeductions p) (grossAmountOf p es) (totalHoursOf p es)
             * (d_amount (sortedDeductions p ! i) / 100)
       \<and> res_netAmount (phase1 ad es p) =
           grossAmountOf p es - sum_list (map b_amount (res_deductionBreakdown (phase1 ad es p)))"
  using profitShare_amount [OF assms(1-4)] specProfitShareBase_eq [OF assms(5,6)] netAmount_phase1
  by simp

lemma sorted_oneSalary:
  "sortedDeductions oneSalary =
     [deduction ''s'' ''Salary'' Fixed 2 0, deduction ''m'' ''MGMT Fee'' Percentage 10 1,
      deduction ''ps'' ''Profit Share'' Percentage 50 2]"
  by (simp add: sortedDeductions_def sortBy_def oneSalary_def scenario_simps)

theorem profitShare_spec_base_witness:
  "map b_amount (res_deductionBreakdown (phase1 noToggles scenarioC_hours oneSalary)) = [20, 8, 36]
   \<and> b_amount (res_deductionBreakdown (phase1 noToggles scenarioC_hours oneSalary) ! 2) = 36
   \<and> res_netAmount (phase1 noToggles scenarioC_hours oneSalary) = 36"
proof -
  let ?ds = "sortedDeductions oneSalary"
  have amounts: "map b_amount (res_deductionBreakdown (phase1 noToggles scenarioC_hours oneSalary))
      = [20, 8, 36]"
    unfolding phase1_fields sequentialDeductions_def sorted_oneSalary
    by (simp add: deductionAmount_def appliedAmount_def applied_noToggles scenario_simps
        b_amount_breakdownOf oneSalary_def hours10 gross100 profitShareBase_def afterSalary_def
        salaryDeduction_def mgmtFeeDeduction_def)
  have index: "2 < length ?ds"
    and share: "d_type (?ds ! 2) = Percentage" "str_includes (d_name (?ds ! 2)) ''Profit Share''"
    and amount: "d_amount (?ds ! 2) = 50"
    unfolding sorted_oneSalary by (simp_all add: scenario_simps)
  have salary: "case salaryDeduction noToggles (p_id oneSalary) ?ds of
      None \<Rightarrow> True | Some s \<Rightarrow> d_type s = Fixed"
    unfolding sorted_oneSalary
    by (simp add: salaryDeduction_def applied_noToggles scenario_simps)
  have fee: "case mgmtFeeDeduction noToggles (p_id oneSalary) ?ds of
      None \<Rightarrow> True | Some m \<Rightarrow> d_type m = Percentage"
    unfolding sorted_oneSalary
    by (simp add: mgmtFeeDeduction_def applied_noToggles scenario_simps)
  have base: "specProfitShareBase noToggles (p_id oneSalary) ?ds
      (grossAmountOf oneSalary scenarioC_hours) (totalHoursOf oneSalary scenarioC_hours) = 72"
    unfolding sorted_oneSalary
    by (simp add: specProfitShareBase_def specSalaryDeduction_def specMgmtFeeDeduction_def
        applied_noToggles scenario_simps oneSalary_def hours10 gross100)
  have gross: "grossAmountOf oneSalary scenarioC_hours = 100"
    by (simp add: oneSalary_def gross100)
  from profitShare_spec_base [OF index applied_noToggles share salary fee, of scenarioC_hours,
      unfolded base amount]
  have "b_amount (res_deductionBreakdown (phase1 noToggles scenarioC_hours oneSalary) ! 2) = 36
      \<and> res_netAmount (phase1 noToggles scenarioC_hours oneSalary) = 36"
    by (simp add: amounts gross)
  with amounts show ?thesis by blast
qed

theorem profitShare_spec_base_counterexample:
  "b_amount (res_deductionBreakdown (phase1 noToggles scenarioC_hours percentageSalary) ! 2) = 50
   \<and> specProfitShareBase noToggles (p_id percentageSalary) (sortedDeductions percentageSalary)
         (grossAmountOf percentageSalary scenarioC_hours) (totalHoursOf percentageSalary scenarioC_hours)
       * (d_amount (sortedDeductions percentageSalary ! 2) / 100) = 40"
proof -
  have "b_amount (res_deductionBreakdown (phase1 noToggles scenarioC_hours percentageSalary) ! 2) = 50"
    unfolding phase1_fields sequentialDeductions_def sorted_percentageSalary
    by (simp add: deductionAmount_def
        appliedAmount_def applied_noToggles scenario_simps b_amount_breakdownOf percentageSalary_def
        hours10 gross100 profitShareBase_def afterSalary_def salaryDeduction_def
        mgmtFeeDeduction_def)
  moreover
  have "specProfitShareBase noToggles (p_id percentageSalary) (sortedDeductions percentageSalary)
         (grossAmountOf percentageSalary scenarioC_hours) (totalHoursOf percentageSalary scenarioC_hours)
       * (d_amount (sortedDeductions percentageSalary ! 2) / 100) = 40"
    unfolding sorted_percentageSalary
    by (simp add: specProfitShareBase_def specSalaryDeduction_def specMgmtFeeDeduction_def
        applied_noToggles scenario_simps percentageSalary_def hours10 gross100)
  ultimately show ?thesis by blast
qed

section \<open>Properties of the aggregator\<close>

lemma foldl_plus: "foldl (\<lambda>sum result. sum + f result) a xs = a + sum_list (map f xs)" for a :: real
  by (induction xs arbitrary: a) simp_all

lemma totalOf_sum: "totalOf f xs = sum_list (map f xs)"
  by (simp add: totalOf_def foldl_plus)

lemma averageRateOf_zero:
  "totalHours = 0 \<or> totalAmount = 0 \<Longrightarrow> averageRateOf totalAmount totalHours = Some 0"
  by (auto simp add: averageRateOf_def js_div_def)

lemma averageRateOf_finite: "averageRateOf totalAmount totalHours \<noteq> None"
  by (simp add: averageRateOf_def js_div_def)

lemma percentageOf_zero: "t \<le> 0 \<Longrightarrow> percentageOf n t = Some 0"
  by (simp add: percentageOf_def)

lemma percentageOf_finite: "\<exists>y. percentageOf n t = Some y"
  by (simp add: percentageOf_def js_div_def js_times_def)

lemma percentageOf_positive: "0 < t \<Longrightarrow> percentageOf n t = Some (n / t * 100)"
  by (simp add: percentageOf_def js_div_def js_times_def)

text \<open>
  C7, as amended. When the sum of the net amounts is positive, the aggregator of the
  transfer variant computes each profile's percentage as its net amount divided by that
  sum, times 100; when the sum is zero or negative, every percentage is 0. The
  aggregator of the client-rate variant divides by the total client payment instead,
  and that of the basic variant by the total gross amount, each when positive. As
  stated for every nonzero divisor and for the sum of the net amounts throughout, the
  claim fails: a profile with one hour at rate 10 and a fixed deduction of 15 per hour
  has the net amount -5 and the percentage 0, not 100; and in the client-rate variant
  scenario E has the net amount 100 and the percentage 50, not 100.
\<close>

theorem distribution_percentage:
  "(0 < sum_list (map res_netAmount results) \<longrightarrow>
      map pd_percentage (paymentDistributionOf results) =
        map (\<lambda>r. Some (res_netAmount r / sum_list (map res_netAmount results) * 100)) results)
   \<and> (sum_list (map res_netAmount results) \<le> 0 \<longrightarrow>
      map pd_percentage (paymentDistributionOf results) = map (\<lambda>r. Some 0) results)
   \<and> (0 < sum_list (map (\<lambda>r. rb_clientPayment (rres_revenueBreakdown r)) revenueResults) \<longrightarrow>
      map pd_percentage (revenueDistributionOf revenueResults) =
        map (\<lambda>r. Some (rres_netAmount r
               / sum_list (map (\<lambda>r. rb_clientPayment (rres_revenueBreakdown r)) revenueResults) * 100))
          revenueResults)
   \<and> (0 < sum_list (map bres_grossAmount basicResults) \<longrightarrow>
      map pd_percentage (basicDistributionOf basicResults) =
        map (\<lambda>r. Some (bres_netAmount r / sum_list (map bres_grossAmount basicResults) * 100))
          basicResults)"
  by (simp add: paymentDistributionOf_def revenueDistributionOf_def basicDistributionOf_def
      Let_def totalOf_sum percentageOf_positive percentageOf_zero comp_def)


theorem distribution_percentage_witness:
  "sum_list (map res_netAmount (phase2Results noToggles twoWorkers twoWorkers_hours)) = 100
   \<and> map pd_percentage (paymentDistributionOf (phase2Results noToggles twoWorkers twoWorkers_hours))
       = [Some 72, Some 28]
   \<and> sum_list (map res_netAmount (phase2Results noToggles [overdrawn] oneHour)) = - 5
   \<and> map pd_percentage (paymentDistributionOf (phase2Results noToggles [overdrawn] oneHour))
       = [Some 0]
   \<and> sum_list (map (\<lambda>r. rb_clientPayment (rres_revenueBreakdown r))
        [revenueResult noToggles scenarioE_hours scenarioE]) = 200
   \<and> map pd_percentage (revenueDistributionOf [revenueResult noToggles scenarioE_hours scenarioE])
       = [Some 50]
   \<and> sum_list (map bres_grossAmount basicPair) = 200
   \<and> map pd_percentage (basicDistributionOf basicPair) = [Some 30, Some 50]"
proof -
  have nets: "map res_netAmount (phase2Results noToggles twoWorkers twoWorkers_hours) = [72, 28]"
    by code_simp
  have over: "map res_netAmount (phase2Results noToggles [overdrawn] oneHour) = [- 5]"
    by code_simp
  have client: "map (\<lambda>r. rb_clientPayment (rres_revenueBreakdown r))
      [revenueResult noToggles scenarioE_hours scenarioE] = [200]"
    by code_simp
  have clientNet: "map rres_netAmount [revenueResult noToggles scenarioE_hours scenarioE] = [100]"
    by code_simp
  have basic: "map bres_grossAmount basicPair = [100, 100]" "map bres_netAmount basicPair = [60, 100]"
    by (simp_all add: basicPair_def)
  have lists: "map f xs = [a, b] \<Longrightarrow> map (\<lambda>r. g (f r)) xs = [g a, g b]"
    "map f xs = [a] \<Longrightarrow> map (\<lambda>r. g (f r)) xs = [g a]" for f :: "'a \<Rightarrow> real" and g :: "real \<Rightarrow> 'b" and xs a b
    by auto
  from distribution_percentage [of "phase2Results noToggles twoWorkers twoWorkers_hours"
      "[revenueResult noToggles scenarioE_hours scenarioE]" basicPair]
  have "map pd_percentage (paymentDistributionOf (phase2Results noToggles twoWorkers twoWorkers_hours))
       = [Some 72, Some 28]
     \<and> map pd_percentage (revenueDistributionOf [revenueResult noToggles scenarioE_hours scenarioE])
       = [Some 50]
     \<and> map pd_percentage (basicDistributionOf basicPair) = [Some 30, Some 50]"
    unfolding nets client basic
    using lists(1) [OF nets, of "\<lambda>v. Some (v / 100 * 100)"]
      lists(2) [OF clientNet, of "\<lambda>v. Some (v / 200 * 100)"]
      lists(1) [OF basic(2), of "\<lambda>v. Some (v / 200 * 100)"]
    by simp
  moreover
  from distribution_percentage [of "phase2Results noToggles [overdrawn] oneHour"]
  have "map pd_percentage (paymentDistributionOf (phase2Results noToggles [overdrawn] oneHour))
       = [Some 0]"
    unfolding over using lists(2) [OF over, of "\<lambda>v. Some (0::real)"] by simp
  moreover
  have "sum_list (map res_netAmount (phase2Results noToggles twoWorkers twoWorkers_hours)) = 100"
    unfolding nets by simp
  moreover
  have "sum_list (map res_netAmount (phase2Results noToggles [overdrawn] oneHour)) = - 5"
    unfolding over by simp
  moreover
  have "sum_list (map (\<lambda>r. rb_clientPayment (rres_revenueBreakdown r))
        [revenueResult noToggles scenarioE_hours scenarioE]) = 200"
    unfolding client by simp
  moreover
  have "sum_list (map bres_grossAmount basicPair) = 200"
    unfolding basic by simp
  ultimately show ?thesis by blast
qed

theorem distribution_percentage_counterexample:
  "sum_list (map res_netAmount (t_calculations (calculateTotals noToggles [overdrawn] oneHour))) = - 5
   \<and> map pd_percentage (t_paymentDistribution (calculateTotals noToggles [overdrawn] oneHour))
       = [Some 0]
   \<and> map (\<lambda>r. res_netAmount r
             / sum_list (map res_netAmount (t_calculations (calculateTotals noToggles [overdrawn] oneHour)))
             * 100)
        (t_calculations (calculateTotals noToggles [overdrawn] oneHour)) = [100]
   \<and> sum_list (map rres_netAmount [revenueResult noToggles scenarioE_hours scenarioE]) = 100
   \<and> map pd_percentage (revenueDistributionOf [revenueResult noToggles scenarioE_hours scenarioE])
       = [Some 50]
   \<and> map (\<lambda>r. rres_netAmount r
             / sum_list (map rres_netAmount [revenueResult noToggles scenarioE_hours scenarioE]) * 100)
        [revenueResult noToggles scenarioE_hours scenarioE] = [100]"
  by code_simp

section \<open>Properties of the revenue and margin calculator\<close>

lemma foldl_clientPaymentStep_unmatched:
  assumes "\<forall>e \<in> set entries. \<forall>hr. findHourlyRate p e = Some hr \<longrightarrow> findClientRate p hr = None"
  shows "foldl (clientPaymentStep p) c entries = c + 2 * sum_list (map (entryPay p) entries)"
  using assms
  by (induction entries arbitrary: c)
     (simp_all add: clientPaymentStep_def entryPay_def split: option.split)

lemma revenueResult_breakdown:
  "rres_revenueBreakdown (revenueResult ad es p) =
     calculateRevenueBreakdown p (profileEntries p es) (grossAmountOf p es)"
  by (simp add: revenueResult_def Let_def split: prod.split)

text \<open>
  C8. In the client-rate variant, take a profile none of whose entries resolves to an
  hourly rate that has a client rate. The revenue breakdown that \<open>calculateTotals\<close>
  computes for it, with the gross amount as employee payment, has a client payment of
  twice the employee payment and a profit margin of client payment less employee
  payment. Scenario E: no client rate, 4 hours at 25 per hour, employee
  payment 100, client payment 200, profit margin 100.
\<close>

theorem revenue_fallback:
  assumes "\<forall>e \<in> set (profileEntries p es).
             \<forall>hr. findHourlyRate p e = Some hr \<longrightarrow> findClientRate p hr = None"
  shows "rb_employeePayment (rres_revenueBreakdown (revenueResult ad es p)) = grossAmountOf p es
       \<and> rb_clientPayment (rres_revenueBreakdown (revenueResult ad es p)) =
           rb_employeePayment (rres_revenueBreakdown (revenueResult ad es p)) * 2
       \<and> rb_profitMargin (rres_revenueBreakdown (revenueResult ad es p)) =
           rb_clientPayment (rres_revenueBreakdown (revenueResult ad es p))
             - rb_employeePayment (rres_revenueBreakdown (revenueResult ad es p))"
proof -
  have summed: "foldl (clientPaymentStep p) 0 (profileEntries p es) = 2 * grossAmountOf p es"
    using foldl_clientPaymentStep_unmatched [OF assms, of 0] by (simp add: grossAmountOf_sum)
  show ?thesis
    unfolding revenueResult_breakdown
    by (simp add: calculateRevenueBreakdown_def Let_def summed)
qed

theorem revenue_fallback_witness:
  "rb_employeePayment (rres_revenueBreakdown (revenueResult noToggles scenarioE_hours scenarioE)) = 100
   \<and> rb_clientPayment (rres_revenueBreakdown (revenueResult noToggles scenarioE_hours scenarioE)) = 200
   \<and> rb_profitMargin (rres_revenueBreakdown (revenueResult noToggles scenarioE_hours scenarioE)) = 100"
proof -
  have unmatched: "\<forall>e \<in> set (profileEntries scenarioE scenarioE_hours).
      \<forall>hr. findHourlyRate scenarioE e = Some hr \<longrightarrow> findClientRate scenarioE hr = None"
    by (simp add: findClientRate_def scenarioE_def scenario_simps)
  have gross: "grossAmountOf scenarioE scenarioE_hours = 100"
    by (simp add: grossAmountOf_def profileEntries_def grossStep_def findHourlyRate_def
        scenarioE_def scenarioE_hours_def scenario_simps)
  from revenue_fallback [OF unmatched, of noToggles] show ?thesis
    by (simp add: gross)
qed

section \<open>Properties of the applied-state map\<close>

lemma foldl_initDeduction:
  "foldl (initDeduction p) m ds k =
     (if m k = None \<and> k \<in> (\<lambda>d. deductionKey (p_id p) (d_id d)) ` set ds then Some True else m k)"
  by (induction ds arbitrary: m) (auto simp add: initDeduction_def)

lemma foldl_initProfile:
  "foldl initProfile m ps k =
     (if m k = None \<and> (\<exists>p \<in> set ps. k \<in> (\<lambda>d. deductionKey (p_id p) (d_id d)) ` set (p_deductions p))
      then Some True else m k)"
  by (induction ps arbitrary: m) (auto simp add: initProfile_def foldl_initDeduction)

lemma initAppliedDeductions_key:
  assumes "p \<in> set profiles" and "d \<in> set (p_deductions p)"
  shows "initAppliedDeductions profiles ad (deductionKey (p_id p) (d_id d)) =
     (case ad (deductionKey (p_id p) (d_id d)) of None \<Rightarrow> Some True | Some b \<Rightarrow> Some b)"
proof -
  from assms(1) have "length profiles > 0" by (cases profiles) simp_all
  then show ?thesis
    using assms by (auto simp add: initAppliedDeductions_def foldl_initProfile split: option.split)
qed

lemma processIndependent_Cons:
  "processIndependent applied g t (d # rest) =
     (\<lparr>pb_deductionId = d_id d, pb_deductionName = d_name d,
       pb_amount = independentAmount (applied (d_id d)) g d, pb_type = d_type d\<rparr>
        # fst (processIndependent applied g (t + independentAmount (applied (d_id d)) g d) rest),
      snd (processIndependent applied g (t + independentAmount (applied (d_id d)) g d) rest))"
  by (simp add: Let_def split: prod.split)

lemma processIndependent_nth:
  "i < length xs \<Longrightarrow>
   pb_amount (fst (processIndependent applied g t xs) ! i) =
     independentAmount (applied (d_id (xs ! i))) g (xs ! i)"
proof (induction xs arbitrary: t i)
  case Nil
  then show ?case by simp
next
  case (Cons d rest)
  show ?case
  proof (cases i)
    case 0
    then show ?thesis by (simp add: processIndependent_Cons del: processIndependent.simps)
  next
    case (Suc j)
    with Cons.prems have "j < length rest" by simp
    from Cons.IH [OF this] show ?thesis
      unfolding Suc by (simp add: processIndependent_Cons del: processIndependent.simps)
  qed
qed

text \<open>
  C9, as amended. The applied-state map is keyed by profile id and deduction id. The
  initialisation effect stores \<open>true\<close> for every deduction of a profile whose key the
  map does not hold yet and leaves the keys it holds as they are. In the transfer
  variant a key that is absent means applied, and toggling a deduction whose stored
  state is \<open>true\<close> stores \<open>false\<close>. A deduction whose stored state is \<open>false\<close>
  contributes the amount 0 to the breakdown, and the deductions after it are processed
  with the running remaining amount it was reached with. In the step-by-step variant
  the calculation counts a deduction as applied only when \<open>true\<close> is stored for it: a
  key that is absent, like one that holds \<open>false\<close>, gives the amount 0. So "an absent
  key means applied" fails there: with the empty map, scenario C's two deductions give
  the amounts 0 and 0 in that variant, and 2 and 10 once the effect has stored
  \<open>true\<close> for them.
\<close>

theorem applied_state:
  "(p \<in> set profiles \<and> d \<in> set (p_deductions p) \<longrightarrow>
      initAppliedDeductions profiles ad (deductionKey (p_id p) (d_id d)) =
        (case ad (deductionKey (p_id p) (d_id d)) of None \<Rightarrow> Some True | Some b \<Rightarrow> Some b))
   \<and> (ad (deductionKey (p_id p) (d_id d)) = None \<longrightarrow> isApplied ad (p_id p) (d_id d))
   \<and> (ad (deductionKey (p_id p) (d_id d)) = Some True \<longrightarrow>
        toggleDeduction (p_id p) (d_id d) ad (deductionKey (p_id p) (d_id d)) = Some False)
   \<and> (i < length (sortedDeductions p)
        \<and> ad (deductionKey (p_id p) (d_id (sortedDeductions p ! i))) = Some False \<longrightarrow>
        b_amount (res_deductionBreakdown (phase1 ad es p) ! i) = 0)
   \<and> (ad (deductionKey (p_id p) (d_id d)) = Some False \<longrightarrow>
        processDeductions ad (p_id p) ds g h r (d # rest) =
          (breakdownOf d 0 # fst (processDeductions ad (p_id p) ds g h r rest),
           snd (processDeductions ad (p_id p) ds g h r rest)))
   \<and> (i < length (sortedDeductions p)
        \<and> ad (deductionKey (p_id p) (d_id (sortedDeductions p ! i))) \<noteq> Some True \<longrightarrow>
        pb_amount (fst (stepByStepDeductions ad p es) ! i) = 0)"
proof -
  have init: "p \<in> set profiles \<and> d \<in> set (p_deductions p) \<longrightarrow>
      initAppliedDeductions profiles ad (deductionKey (p_id p) (d_id d)) =
        (case ad (deductionKey (p_id p) (d_id d)) of None \<Rightarrow> Some True | Some b \<Rightarrow> Some b)"
    using initAppliedDeductions_key by blast
  have absent: "ad (deductionKey (p_id p) (d_id d)) = None \<longrightarrow> isApplied ad (p_id p) (d_id d)"
    by (simp add: isApplied_def)
  have toggle: "ad (deductionKey (p_id p) (d_id d)) = Some True \<longrightarrow>
      toggleDeduction (p_id p) (d_id d) ad (deductionKey (p_id p) (d_id d)) = Some False"
    by (simp add: toggleDeduction_def)
  have off: "i < length (sortedDeductions p)
        \<and> ad (deductionKey (p_id p) (d_id (sortedDeductions p ! i))) = Some False \<longrightarrow>
      b_amount (res_deductionBreakdown (phase1 ad es p) ! i) = 0"
    by (simp add: breakdown_nth b_amount_breakdownOf deductionAmount_def isApplied_def)
  have unchanged: "ad (deductionKey (p_id p) (d_id d)) = Some False \<longrightarrow>
      processDeductions ad (p_id p) ds g h r (d # rest) =
        (breakdownOf d 0 # fst (processDeductions ad (p_id p) ds g h r rest),
         snd (processDeductions ad (p_id p) ds g h r rest))"
    by (simp add: deductionAmount_def isApplied_def)
  have strict: "i < length (sortedDeductions p)
        \<and> ad (deductionKey (p_id p) (d_id (sortedDeductions p ! i))) \<noteq> Some True \<longrightarrow>
      pb_amount (fst (stepByStepDeductions ad p es) ! i) = 0"
    by (simp add: stepByStepDeductions_def processIndependent_nth independentAmount_def
        isAppliedStrict_def)
  from init absent toggle off unchanged strict show ?thesis by blast
qed


theorem applied_state_witness:
  "initAppliedDeductions [scenarioC] noToggles (deductionKey ''p1'' ''d1'') = Some True
   \<and> isApplied noToggles ''p1'' ''d1''
   \<and> taxOff (deductionKey ''p1'' ''d1'') = Some False
   \<and> map b_amount (res_deductionBreakdown (phase1 taxOff scenarioC_hours scenarioC)) = [0, 10]
   \<and> res_netAmount (phase1 taxOff scenarioC_hours scenarioC) = 90
   \<and> map pb_amount (fst (stepByStepDeductions taxOff scenarioC scenarioC_hours)) = [0, 10]
   \<and> b_amount (res_deductionBreakdown (phase1 taxOff scenarioC_hours scenarioC) ! 0) = 0
   \<and> pb_amount (fst (stepByStepDeductions taxOff scenarioC scenarioC_hours) ! 0) = 0"
proof -
  let ?tax = "deduction ''d1'' ''Tax'' Fixed 2 0"
  have member: "scenarioC \<in> set [scenarioC] \<and> ?tax \<in> set (p_deductions scenarioC)"
    by (simp add: scenarioC_def scenario_simps)
  have ids: "p_id scenarioC = ''p1''" "d_id ?tax = ''d1''"
    by (simp_all add: scenarioC_def scenario_simps)
  have absent: "noToggles (deductionKey ''p1'' ''d1'') = None"
    by (simp add: noToggles_def)
  from applied_state [where p = scenarioC and profiles = "[scenarioC]" and d = ?tax
      and ad = noToggles] member absent
  have "initAppliedDeductions [scenarioC] noToggles (deductionKey ''p1'' ''d1'') = Some True
      \<and> isApplied noToggles ''p1'' ''d1''"
    unfolding ids by simp
  moreover have "taxOff (deductionKey ''p1'' ''d1'') = Some False"
    by code_simp
  moreover have "map b_amount (res_deductionBreakdown (phase1 taxOff scenarioC_hours scenarioC))
      = [0, 10]"
    by code_simp
  moreover have "res_netAmount (phase1 taxOff scenarioC_hours scenarioC) = 90"
    by code_simp
  moreover have "map pb_amount (fst (stepByStepDeductions taxOff scenarioC scenarioC_hours)) = [0, 10]"
    by code_simp
  moreover
  have first: "0 < length (sortedDeductions scenarioC)"
    and off: "taxOff (deductionKey (p_id scenarioC) (d_id (sortedDeductions scenarioC ! 0))) = Some False"
    by code_simp+
  from applied_state [where p = scenarioC and ad = taxOff and i = 0 and es = scenarioC_hours]
    first off
  have "b_amount (res_deductionBreakdown (phase1 taxOff scenarioC_hours scenarioC) ! 0) = 0
      \<and> pb_amount (fst (stepByStepDeductions taxOff scenarioC scenarioC_hours) ! 0) = 0"
    by simp
  ultimately show ?thesis by blast
qed

theorem applied_state_counterexample:
  "noToggles (deductionKey ''p1'' ''d1'') = None
   \<and> noToggles (deductionKey ''p1'' ''d2'') = None
   \<and> map pb_amount (fst (stepByStepDeductions noToggles scenarioC scenarioC_hours)) = [0, 0]
   \<and> map pb_amount (fst (stepByStepDeductions (initAppliedDeductions [scenarioC] noToggles)
        scenarioC scenarioC_hours)) = [2, 10]"
  by code_simp

section \<open>Properties of the transfer resolver\<close>

lemma receiveStep_acc:
  "receiveStep ad op other rid acc d = acc + receiveStep ad op other rid 0 d"
  by (simp add: receiveStep_def split: option.split)

lemma foldl_receiveStep:
  "foldl (receiveStep ad op other rid) acc ds =
     acc + sum_list (map (receiveStep ad op other rid 0) ds)"
proof (induction ds arbitrary: acc)
  case Nil
  show ?case by simp
next
  case (Cons d ds)
  show ?case
    by (simp add: Cons.IH receiveStep_acc [of ad op other rid acc d])
qed

lemma receiveFromResult_acc:
  "receiveFromResult ad ps rid acc other = acc + receiveFromResult ad ps rid 0 other"
  by (simp add: receiveFromResult_def foldl_receiveStep [where acc = acc] foldl_receiveStep [where acc = 0]
      split: option.split)

lemma foldl_receiveFromResult:
  "foldl (receiveFromResult ad ps rid) acc rs =
     acc + sum_list (map (receiveFromResult ad ps rid 0) rs)"
proof (induction rs arbitrary: acc)
  case Nil
  show ?case by simp
next
  case (Cons r rs)
  show ?case
    by (simp add: Cons.IH receiveFromResult_acc [of ad ps rid acc r])
qed

lemma find_distinct_nth:
  assumes "distinct (map f xs)" and "i < length xs"
  shows "find (\<lambda>x. f x = f (xs ! i)) xs = Some (xs ! i)"
proof -
  have "\<not> f (xs ! j) = f (xs ! i)" if "j < i" for j
  proof -
    from that assms(2) have "j < length (map f xs)" "i < length (map f xs)" "j \<noteq> i" by simp_all
    with nth_eq_iff_index_eq [OF assms(1), of j i] have "map f xs ! j \<noteq> map f xs ! i" by blast
    with that assms(2) show ?thesis by simp
  qed
  with assms(2) show ?thesis unfolding find_Some_iff by blast
qed

lemma find_profile:
  assumes "distinct (map p_id ps)" and "q \<in> set ps"
  shows "find (\<lambda>p. p_id p = p_id q) (map sortProfile ps) = Some (sortProfile q)"
proof -
  from assms(2) obtain i where i: "i < length ps" "ps ! i = q" by (auto simp add: in_set_conv_nth)
  have ids: "map p_id (map sortProfile ps) = map p_id ps"
    by (simp add: sortProfile_def)
  have "distinct (map p_id (map sortProfile ps))"
    unfolding ids by (rule assms(1))
  from find_distinct_nth [OF this, of i] i show ?thesis
    by (simp add: sortProfile_def)
qed

lemma distinct_sortedDeductions:
  "distinct (map d_id (p_deductions p)) \<Longrightarrow> distinct (map d_id (sortedDeductions p))"
  by (simp add: sortedDeductions_sort_key distinct_map)


lemma sum_list_swap:
  "(\<Sum>x\<leftarrow>xs. \<Sum>y\<leftarrow>ys. f x y) = (\<Sum>y\<leftarrow>ys. \<Sum>x\<leftarrow>xs. (f x y :: real))"
  by (induction xs) (simp_all add: sum_list_addf)

lemma sum_list_if_distrib:
  "(if c then sum_list (map f xs) else 0) = (\<Sum>x\<leftarrow>xs. if c then f x else (0::real))"
  by simp

lemma sum_list_single_id:
  assumes "distinct (map f xs)"
  shows "(\<Sum>x\<leftarrow>xs. if f x = r then c else (0::real)) = (if r \<in> set (map f xs) then c else 0)"
  using assms by (induction xs) auto

text \<open>A deduction that is not applied has the amount 0 in the phase-1 breakdown.\<close>

lemma breakdown_not_applied:
  assumes "i < length (sortedDeductions p)"
      and "\<not> isApplied ad (p_id p) (d_id (sortedDeductions p ! i))"
  shows "b_amount (res_deductionBreakdown (phase1 ad es p) ! i) = 0"
  using assms(2)
  by (simp add: breakdown_nth [OF assms(1)] b_amount_breakdownOf deductionAmount_def)

lemma breakdown_length:
  "length (res_deductionBreakdown (phase1 ad es p)) = length (sortedDeductions p)"
  by (simp add: phase1_fields sequentialDeductions_def processDeductions_length)

lemma breakdown_ids:
  "map b_deductionId (res_deductionBreakdown (phase1 ad es p)) = map d_id (sortedDeductions p)"
  by (simp add: phase1_fields sequentialDeductions_def processDeductions_ids)

text \<open>What one deduction of profile \<open>q\<close> hands to the profile with id \<open>rid\<close>.\<close>

lemma receiveStep_nth:
  assumes "distinct (map d_id (p_deductions q))" and "i < length (sortedDeductions q)"
  shows "receiveStep ad (sortProfile q) (phase1 ad es q) rid 0 (sortedDeductions q ! i) =
     (if d_recipientProfileId (sortedDeductions q ! i) = Some rid
      then b_amount (res_deductionBreakdown (phase1 ad es q) ! i) else 0)"
proof -
  let ?bd = "res_deductionBreakdown (phase1 ad es q)"
  have "distinct (map b_deductionId ?bd)"
    unfolding breakdown_ids using assms(1) by (rule distinct_sortedDeductions)
  moreover from assms(2) have i: "i < length ?bd" by (simp add: breakdown_length)
  ultimately have "find (\<lambda>b. b_deductionId b = b_deductionId (?bd ! i)) ?bd = Some (?bd ! i)"
    by (rule find_distinct_nth)
  moreover have "b_deductionId (?bd ! i) = d_id (sortedDeductions q ! i)"
    using arg_cong [OF breakdown_ids [of ad es q], of "\<lambda>xs. xs ! i"] i assms(2) by simp
  ultimately have found: "find (\<lambda>b. b_deductionId b = d_id (sortedDeductions q ! i)) ?bd = Some (?bd ! i)"
    by simp
  show ?thesis
    using breakdown_not_applied [OF assms(2), of ad es]
    by (simp add: receiveStep_def found sortProfile_def)
qed

lemma sum_list_nth_cong:
  assumes "length xs = length ys" and "\<And>i. i < length xs \<Longrightarrow> f (xs ! i) = g (ys ! i)"
  shows "sum_list (map f xs) = sum_list (map g ys)"
proof -
  have "map f xs = map g ys"
    using assms by (simp add: list_eq_iff_nth_eq)
  then show ?thesis by simp
qed

lemma sortProfile_fields:
  "p_id (sortProfile q) = p_id q"
  "p_deductions (sortProfile q) = sortedDeductions q"
  by (simp_all add: sortProfile_def)

lemma received_from_profile:
  assumes "distinct (map p_id profiles)" and "q \<in> set profiles"
      and "distinct (map d_id (p_deductions q))"
  shows "receiveFromResult ad (map sortProfile profiles) rid 0 (phase1 ad es q) =
     (\<Sum>(d, b)\<leftarrow>zip (sortedDeductions q) (res_deductionBreakdown (phase1 ad es q)).
        if p_id q \<noteq> rid \<and> d_recipientProfileId d = Some rid then b_amount b else 0)"
proof -
  let ?ds = "sortedDeductions q"
  let ?bd = "res_deductionBreakdown (phase1 ad es q)"
  have steps: "sum_list (map (receiveStep ad (sortProfile q) (phase1 ad es q) rid 0) ?ds) =
      (\<Sum>(d, b)\<leftarrow>zip ?ds ?bd. if d_recipientProfileId d = Some rid then b_amount b else 0)"
  proof (rule sum_list_nth_cong)
    show "length ?ds = length (zip ?ds ?bd)" by (simp add: breakdown_length)
  next
    fix i assume "i < length ?ds"
    then show "receiveStep ad (sortProfile q) (phase1 ad es q) rid 0 (?ds ! i) =
        (case zip ?ds ?bd ! i of (d, b) \<Rightarrow> if d_recipientProfileId d = Some rid then b_amount b else 0)"
      by (simp add: receiveStep_nth [OF assms(3)] breakdown_length)
  qed
  show ?thesis
  proof (cases "p_id q = rid")
    case True
    then show ?thesis
      by (simp add: receiveFromResult_def phase1_fields(5) sum_list_all_zero split_def)
  next
    case False
    then show ?thesis
      by (simp add: receiveFromResult_def phase1_fields(5) find_profile [OF assms(1,2)]
          foldl_receiveStep steps sortProfile_fields)
  qed
qed


lemma sum_list_valid_recipient:
  assumes "distinct (map p_id ps)"
  shows "(\<Sum>P\<leftarrow>ps. if p_id q \<noteq> p_id P \<and> d_recipientProfileId d = Some (p_id P) then c else (0::real))
       = (if validRecipient ps q d then c else 0)"
proof (cases "d_recipientProfileId d")
  case None
  then show ?thesis by (simp add: validRecipient_def)
next
  case (Some r)
  have "(\<Sum>P\<leftarrow>ps. if p_id q \<noteq> p_id P \<and> d_recipientProfileId d = Some (p_id P) then c else 0)
      = (\<Sum>P\<leftarrow>ps. if p_id P = r then (if r \<noteq> p_id q then c else 0) else 0)"
    unfolding Some by (rule arg_cong [where f = sum_list], rule map_cong) auto
  also have "\<dots> = (if r \<in> set (map p_id ps) then (if r \<noteq> p_id q then c else 0) else 0)"
    using assms by (rule sum_list_single_id)
  finally show ?thesis by (simp add: validRecipient_def Some)
qed

lemma receivedFromOthersOf_phase1:
  assumes "distinct (map p_id profiles)"
      and "\<forall>p \<in> set profiles. distinct (map d_id (p_deductions p))"
  shows "receivedFromOthersOf ad (map sortProfile profiles) (phase1Results ad profiles es) (phase1 ad es P) =
     (\<Sum>q\<leftarrow>profiles.
        \<Sum>(d, b)\<leftarrow>zip (sortedDeductions q) (res_deductionBreakdown (phase1 ad es q)).
          if p_id q \<noteq> p_id P \<and> d_recipientProfileId d = Some (p_id P) then b_amount b else 0)"
proof -
  have "sum_list (map (\<lambda>q. receiveFromResult ad (map sortProfile profiles) (p_id P) 0 (phase1 ad es q))
        profiles) =
      sum_list (map (\<lambda>q. \<Sum>(d, b)\<leftarrow>zip (sortedDeductions q) (res_deductionBreakdown (phase1 ad es q)).
          if p_id q \<noteq> p_id P \<and> d_recipientProfileId d = Some (p_id P) then b_amount b else 0) profiles)"
    by (rule arg_cong [where f = sum_list], rule map_cong [OF refl])
       (use assms in \<open>simp add: received_from_profile\<close>)
  then show ?thesis
    by (simp add: receivedFromOthersOf_def foldl_receiveFromResult phase1Results_def phase1_fields(5)
        comp_def)
qed

lemma total_received:
  assumes "distinct (map p_id profiles)"
      and "\<forall>p \<in> set profiles. distinct (map d_id (p_deductions p))"
  shows "(\<Sum>P\<leftarrow>profiles.
            receivedFromOthersOf ad (map sortProfile profiles) (phase1Results ad profiles es) (phase1 ad es P))
       = sum_list (map (transferredAmount ad profiles es) profiles)"
proof -
  let ?zip = "\<lambda>q. zip (sortedDeductions q) (res_deductionBreakdown (phase1 ad es q))"
  let ?give = "\<lambda>q P (d, b).
      if p_id q \<noteq> p_id P \<and> d_recipientProfileId d = Some (p_id P) then b_amount b else 0"
  have "(\<Sum>P\<leftarrow>profiles.
            receivedFromOthersOf ad (map sortProfile profiles) (phase1Results ad profiles es) (phase1 ad es P))
      = (\<Sum>P\<leftarrow>profiles. \<Sum>q\<leftarrow>profiles. \<Sum>x\<leftarrow>?zip q. ?give q P x)"
    by (simp add: receivedFromOthersOf_phase1 [OF assms])
  also have "\<dots> = (\<Sum>q\<leftarrow>profiles. \<Sum>P\<leftarrow>profiles. \<Sum>x\<leftarrow>?zip q. ?give q P x)"
    by (rule sum_list_swap)
  also have "\<dots> = (\<Sum>q\<leftarrow>profiles. \<Sum>x\<leftarrow>?zip q. \<Sum>P\<leftarrow>profiles. ?give q P x)"
    by (rule arg_cong [where f = sum_list], rule map_cong [OF refl], rule sum_list_swap)
  also have "\<dots> = sum_list (map (transferredAmount ad profiles es) profiles)"
    unfolding transferredAmount_def
    by (simp add: split_def sum_list_valid_recipient [OF assms(1)])
  finally show ?thesis .
qed

lemma breakdown_split:
  "sum_list (map b_amount (res_deductionBreakdown (phase1 ad es p))) =
     unreceivedAmount ad profiles es p + transferredAmount ad profiles es p"
proof -
  let ?zip = "zip (sortedDeductions p) (res_deductionBreakdown (phase1 ad es p))"
  have "(\<Sum>x\<leftarrow>?zip. b_amount (snd x)) = sum_list (map b_amount (map snd ?zip))"
    by (simp add: comp_def)
  also have "\<dots> = sum_list (map b_amount (res_deductionBreakdown (phase1 ad es p)))"
    by (simp add: breakdown_length)
  finally have "sum_list (map b_amount (res_deductionBreakdown (phase1 ad es p))) =
      (\<Sum>x\<leftarrow>?zip. b_amount (snd x))"
    by (rule sym)
  also have "\<dots> = (\<Sum>x\<leftarrow>?zip. (if validRecipient profiles p (fst x) then 0 else b_amount (snd x))
        + (if validRecipient profiles p (fst x) then b_amount (snd x) else 0))"
    by (rule arg_cong [where f = sum_list], rule map_cong) auto
  also have "\<dots> = unreceivedAmount ad profiles es p + transferredAmount ad profiles es p"
    by (simp add: sum_list_addf unreceivedAmount_def transferredAmount_def split_def)
  finally show ?thesis .
qed

lemma phase2_fields:
  "res_netAmount (phase2 ad ps rs r) = res_netAmount r + receivedFromOthersOf ad ps rs r"
  "res_receivedFromOthers (phase2 ad ps rs r) = receivedFromOthersOf ad ps rs r"
  "res_grossAmount (phase2 ad ps rs r) = res_grossAmount r"
  "res_totalDeductions (phase2 ad ps rs r) = res_totalDeductions r"
  by (simp_all add: phase2_def Let_def)

lemma receivedFromOthersOf_amount:
  assumes "distinct (map p_id profiles)"
      and "\<forall>p \<in> set profiles. distinct (map d_id (p_deductions p))"
  shows "receivedFromOthersOf ad (map sortProfile profiles) (phase1Results ad profiles es) (phase1 ad es P)
       = receivedAmount ad profiles es P"
  unfolding receivedAmount_def transfersTo_def
  by (rule receivedFromOthersOf_phase1 [OF assms])

text \<open>
  C3. Take profiles with pairwise different ids, each with pairwise different deduction
  ids, as the data model has them. After the two phases, the sum of the final net
  amounts is the sum of the gross amounts less the amounts of the deductions without a
  valid recipient, a valid recipient being a profile of the list other than the
  deducting one; a deduction that is not applied has the amount 0. The amounts of the
  deductions with a valid recipient are not lost: their sum is the sum of the
  \<open>receivedFromOthers\<close> fields, and each final net amount is gross amount less total
  deductions plus \<open>receivedFromOthers\<close>. Each amount goes to the profile it names: the
  results list the profiles in order, the \<open>receivedFromOthers\<close> field of a profile is
  the sum of the amounts of the other profiles' deductions whose recipient it is, and
  its final net amount is its own phase-1 net amount plus that sum. Scenario D is
  checked after it.
\<close>

theorem conservation_under_transfer:
  assumes "distinct (map p_id profiles)"
      and "\<forall>p \<in> set profiles. distinct (map d_id (p_deductions p))"
  shows "sum_list (map res_netAmount (phase2Results ad profiles es)) =
           sum_list (map res_grossAmount (phase2Results ad profiles es))
             - sum_list (map (unreceivedAmount ad profiles es) profiles)
       \<and> sum_list (map res_receivedFromOthers (phase2Results ad profiles es)) =
           sum_list (map (transferredAmount ad profiles es) profiles)
       \<and> (\<forall>r \<in> set (phase2Results ad profiles es).
            res_netAmount r = res_grossAmount r - res_totalDeductions r + res_receivedFromOthers r)
       \<and> map res_profileId (phase2Results ad profiles es) = map p_id profiles
       \<and> map res_receivedFromOthers (phase2Results ad profiles es) =
           map (receivedAmount ad profiles es) profiles
       \<and> map res_netAmount (phase2Results ad profiles es) =
           map (\<lambda>P. res_netAmount (phase1 ad es P) + receivedAmount ad profiles es P) profiles"
proof -
  let ?recv = "\<lambda>P. receivedFromOthersOf ad (map sortProfile profiles)
      (phase1Results ad profiles es) (phase1 ad es P)"
  have received: "sum_list (map res_receivedFromOthers (phase2Results ad profiles es)) =
      sum_list (map (transferredAmount ad profiles es) profiles)"
    using total_received [OF assms, of ad es]
    by (simp add: phase2Results_def phase1Results_def comp_def phase2_fields)
  have "sum_list (map res_netAmount (phase2Results ad profiles es)) =
      (\<Sum>P\<leftarrow>profiles. (grossAmountOf P es - unreceivedAmount ad profiles es P
          - transferredAmount ad profiles es P) + ?recv P)"
    by (simp add: phase2Results_def phase1Results_def comp_def phase2_fields netAmount_phase1
        breakdown_split [of ad es _ profiles] algebra_simps)
  also have "\<dots> = (\<Sum>P\<leftarrow>profiles. grossAmountOf P es) - sum_list (map (unreceivedAmount ad profiles es) profiles)
      - sum_list (map (transferredAmount ad profiles es) profiles) + (\<Sum>P\<leftarrow>profiles. ?recv P)"
    by (simp add: sum_list_addf sum_list_subtractf)
  also have "\<dots> = (\<Sum>P\<leftarrow>profiles. grossAmountOf P es) - sum_list (map (unreceivedAmount ad profiles es) profiles)"
    by (simp add: total_received [OF assms])
  also have "(\<Sum>P\<leftarrow>profiles. grossAmountOf P es) = sum_list (map res_grossAmount (phase2Results ad profiles es))"
    by (simp add: phase2Results_def phase1Results_def comp_def phase2_fields phase1_fields)
  finally have total: "sum_list (map res_netAmount (phase2Results ad profiles es)) =
      sum_list (map res_grossAmount (phase2Results ad profiles es))
        - sum_list (map (unreceivedAmount ad profiles es) profiles)" .
  have each: "\<forall>r \<in> set (phase2Results ad profiles es).
      res_netAmount r = res_grossAmount r - res_totalDeductions r + res_receivedFromOthers r"
    by (auto simp add: phase2Results_def phase1Results_def phase2_fields phase1_fields)
  have ids: "map res_profileId (phase2Results ad profiles es) = map p_id profiles"
    by (simp add: phase2Results_def phase1Results_def phase2_def Let_def phase1_fields(5))
  have recv: "receivedFromOthersOf ad (map sortProfile profiles) (map (phase1 ad es) profiles)
      (phase1 ad es P) = receivedAmount ad profiles es P" for P
    using receivedFromOthersOf_amount [OF assms, of ad es P] by (simp add: phase1Results_def)
  have routed: "map res_receivedFromOthers (phase2Results ad profiles es) =
      map (receivedAmount ad profiles es) profiles"
    by (simp add: phase2Results_def phase1Results_def phase2_fields recv)
  have nets: "map res_netAmount (phase2Results ad profiles es) =
      map (\<lambda>P. res_netAmount (phase1 ad es P) + receivedAmount ad profiles es P) profiles"
    by (simp add: phase2Results_def phase1Results_def phase2_fields recv)
  from total received each ids routed nets show ?thesis by blast
qed

theorem conservation_under_transfer_witness:
  "map p_id scenarioD = [''pA'', ''pB'']
   \<and> map res_grossAmount (phase2Results noToggles scenarioD scenarioD_hours) = [50, 20]
   \<and> map res_receivedFromOthers (phase2Results noToggles scenarioD scenarioD_hours) = [0, 15]
   \<and> map res_netAmount (phase2Results noToggles scenarioD scenarioD_hours) = [30, 35]
   \<and> map (unreceivedAmount noToggles scenarioD scenarioD_hours) scenarioD = [5, 0]
   \<and> map (transferredAmount noToggles scenarioD scenarioD_hours) scenarioD = [15, 0]
   \<and> map (receivedAmount noToggles scenarioD scenarioD_hours) scenarioD = [0, 15]
   \<and> transfersTo noToggles scenarioD_hours (scenarioD ! 0) (scenarioD ! 1) = 15
   \<and> map (\<lambda>P. res_netAmount (phase1 noToggles scenarioD_hours P)) scenarioD = [30, 20]
   \<and> sum_list (map res_netAmount (phase2Results noToggles scenarioD scenarioD_hours)) = 70 - 5"
proof -
  have profile_ids: "distinct (map p_id scenarioD)"
    by code_simp
  have deduction_ids: "\<forall>p \<in> set scenarioD. distinct (map d_id (p_deductions p))"
    by (simp add: scenarioD_def scenario_simps)
  have ids: "map p_id scenarioD = [''pA'', ''pB'']"
    by code_simp
  have gross: "map res_grossAmount (phase2Results noToggles scenarioD scenarioD_hours) = [50, 20]"
    by code_simp
  have lost: "map (unreceivedAmount noToggles scenarioD scenarioD_hours) scenarioD = [5, 0]"
    by code_simp
  have moved: "map (transferredAmount noToggles scenarioD scenarioD_hours) scenarioD = [15, 0]"
    by code_simp
  have inflow: "map (receivedAmount noToggles scenarioD scenarioD_hours) scenarioD = [0, 15]"
    by code_simp
  have handed: "transfersTo noToggles scenarioD_hours (scenarioD ! 0) (scenarioD ! 1) = 15"
    by code_simp
  have own: "map (\<lambda>P. res_netAmount (phase1 noToggles scenarioD_hours P)) scenarioD = [30, 20]"
    by code_simp
  have final: "map (\<lambda>P. res_netAmount (phase1 noToggles scenarioD_hours P)
      + receivedAmount noToggles scenarioD scenarioD_hours P) scenarioD = [30, 35]"
    by code_simp
  note fact = conservation_under_transfer [OF profile_ids deduction_ids, of noToggles scenarioD_hours]
  from fact have "sum_list (map res_netAmount (phase2Results noToggles scenarioD scenarioD_hours)) =
      sum_list (map res_grossAmount (phase2Results noToggles scenarioD scenarioD_hours))
        - sum_list (map (unreceivedAmount noToggles scenarioD scenarioD_hours) scenarioD)"
    by blast
  then have "sum_list (map res_netAmount (phase2Results noToggles scenarioD scenarioD_hours)) = 70 - 5"
    unfolding gross lost by simp
  moreover from fact
  have "map res_receivedFromOthers (phase2Results noToggles scenarioD scenarioD_hours) = [0, 15]"
    unfolding inflow by blast
  moreover from fact
  have "map res_netAmount (phase2Results noToggles scenarioD scenarioD_hours) = [30, 35]"
    unfolding final by blast
  ultimately show ?thesis using ids gross lost moved inflow handed own by blast
qed

section \<open>Zero guard of the aggregator\<close>

lemma hoursStep_apply:
  "hoursStep m e k =
     (if k = e_profileId e then Some ((case m k of None \<Rightarrow> 0 | Some v \<Rightarrow> v) + e_hours e)
      else m k)"
  by (simp add: hoursStep_def split: option.split)

lemma foldl_hoursStep:
  "foldl hoursStep m es k =
     (if filter (\<lambda>e. e_profileId e = k) es = [] then m k
      else Some ((case m k of None \<Rightarrow> 0 | Some v \<Rightarrow> v)
                  + sum_list (map e_hours (filter (\<lambda>e. e_profileId e = k) es))))"
proof (induction es arbitrary: m)
  case Nil
  show ?case by simp
next
  case (Cons e es)
  let ?mine = "filter (\<lambda>e. e_profileId e = k) es"
  have "foldl hoursStep m (e # es) k = foldl hoursStep (hoursStep m e) es k"
    by simp
  also have "\<dots> = (if ?mine = [] then hoursStep m e k
      else Some ((case hoursStep m e k of None \<Rightarrow> 0 | Some v \<Rightarrow> v)
                  + sum_list (map e_hours ?mine)))"
    by (rule Cons.IH)
  also have "\<dots> = (if filter (\<lambda>e. e_profileId e = k) (e # es) = [] then m k
      else Some ((case m k of None \<Rightarrow> 0 | Some v \<Rightarrow> v)
                  + sum_list (map e_hours (filter (\<lambda>e. e_profileId e = k) (e # es)))))"
    by (auto simp add: hoursStep_apply split: option.split)
  finally show ?case .
qed

lemma totalHoursOf_sum:
  "totalHoursOf p es = sum_list (map e_hours (profileEntries p es))"
  by (simp add: totalHoursOf_def profileHours_def foldl_hoursStep profileEntries_def)

lemma sum_list_positive:
  "(\<forall>x \<in> set xs. 0 < f x) \<Longrightarrow> xs \<noteq> [] \<Longrightarrow> 0 < sum_list (map f xs)" for f :: "'a \<Rightarrow> real"
proof (induction xs)
  case Nil
  then show ?case by simp
next
  case (Cons x xs)
  show ?case
  proof (cases "xs = []")
    case True
    with Cons.prems show ?thesis by simp
  next
    case False
    with Cons have "0 < sum_list (map f xs)" by simp
    with Cons.prems show ?thesis by (simp add: add_pos_pos)
  qed
qed

lemma sum_list_map_nonneg:
  "(\<forall>x \<in> set xs. 0 \<le> f x) \<Longrightarrow> 0 \<le> sum_list (map f xs)" for f :: "'a \<Rightarrow> real"
  by (induction xs) simp_all

lemma totalHoursOf_nonneg:
  assumes "\<forall>e \<in> set es. 0 < e_hours e"
  shows "0 \<le> totalHoursOf p es"
  unfolding totalHoursOf_sum
  using assms by (intro sum_list_map_nonneg) (auto simp add: profileEntries_def less_imp_le)

lemma no_hours_no_entries:
  assumes "\<forall>e \<in> set es. 0 < e_hours e" and "totalHoursOf p es = 0"
  shows "profileEntries p es = []"
proof (rule ccontr)
  assume "profileEntries p es \<noteq> []"
  moreover from assms(1) have "\<forall>e \<in> set (profileEntries p es). 0 < e_hours e"
    by (simp add: profileEntries_def)
  ultimately have "0 < sum_list (map e_hours (profileEntries p es))"
    by (simp add: sum_list_positive)
  with assms(2) show False by (simp add: totalHoursOf_sum)
qed

lemma sum_list_zero_parts:
  "(\<forall>x \<in> set xs. 0 \<le> f x) \<Longrightarrow> sum_list (map f xs) = 0 \<Longrightarrow> \<forall>x \<in> set xs. f x = 0"
  for f :: "'a \<Rightarrow> real"
proof (induction xs)
  case Nil
  show ?case by simp
next
  case (Cons x xs)
  from Cons.prems(1) have "0 \<le> f x" "0 \<le> sum_list (map f xs)"
    by (simp_all add: sum_list_map_nonneg)
  with Cons.prems(2) have "f x = 0" "sum_list (map f xs) = 0" by simp_all
  with Cons show ?case by simp
qed

lemma processDeductions_nothing:
  "processDeductions ad pid ds 0 0 0 xs = (map (\<lambda>d. breakdownOf d 0) xs, 0)"
proof (induction xs)
  case Nil
  show ?case by simp
next
  case (Cons d xs)
  have "deductionAmount ad pid ds 0 0 0 d = 0"
    by (simp add: deductionAmount_def appliedAmount_def profitShareBase_def afterSalary_def
        Let_def split: option.split)
  with Cons show ?case by simp
qed

lemma phase1_nothing:
  assumes "profileEntries p es = []"
  shows "res_netAmount (phase1 ad es p) = 0"
    and "\<forall>b \<in> set (res_deductionBreakdown (phase1 ad es p)). b_amount b = 0"
proof -
  from assms have "grossAmountOf p es = 0" "totalHoursOf p es = 0"
    by (simp_all add: grossAmountOf_def totalHoursOf_sum)
  then have "sequentialDeductions ad p es = (map (\<lambda>d. breakdownOf d 0) (sortedDeductions p), 0)"
    by (simp add: sequentialDeductions_def processDeductions_nothing)
  then show "res_netAmount (phase1 ad es p) = 0"
    and "\<forall>b \<in> set (res_deductionBreakdown (phase1 ad es p)). b_amount b = 0"
    by (auto simp add: phase1_fields b_amount_breakdownOf)
qed

lemma receiveStep_nothing:
  assumes "\<forall>b \<in> set (res_deductionBreakdown other). b_amount b = 0"
  shows "receiveStep ad op other rid 0 d = 0"
proof (cases "find (\<lambda>b. b_deductionId b = d_id d) (res_deductionBreakdown other)")
  case None
  then show ?thesis by (simp add: receiveStep_def)
next
  case (Some b)
  then have "b \<in> set (res_deductionBreakdown other)"
    by (auto simp add: find_Some_iff)
  with assms have "b_amount b = 0" by blast
  with Some show ?thesis by (simp add: receiveStep_def)
qed

lemma receivedFromOthersOf_nothing:
  assumes "\<forall>other \<in> set rs. \<forall>b \<in> set (res_deductionBreakdown other). b_amount b = 0"
  shows "receivedFromOthersOf ad ps rs r = 0"
proof -
  have "receiveFromResult ad ps (res_profileId r) 0 other = 0" if "other \<in> set rs" for other
    using that assms
    by (simp add: receiveFromResult_def foldl_receiveStep receiveStep_nothing sum_list_all_zero
        split: option.split)
  then show ?thesis
    by (simp add: receivedFromOthersOf_def foldl_receiveFromResult sum_list_all_zero)
qed

lemma no_hours_no_net:
  assumes "\<forall>e \<in> set es. 0 < e_hours e"
      and "totalOf res_totalHours (phase2Results ad profiles es) = 0"
  shows "\<forall>r \<in> set (phase2Results ad profiles es). res_netAmount r = 0"
proof -
  have hours: "sum_list (map (\<lambda>p. totalHoursOf p es) profiles) = 0"
    using assms(2)
    by (simp add: totalOf_sum phase2Results_def phase1Results_def comp_def phase2_def Let_def
        phase1_fields)
  have "\<forall>p \<in> set profiles. totalHoursOf p es = 0"
    using totalHoursOf_nonneg [OF assms(1)] hours by (intro sum_list_zero_parts) auto
  with assms(1) have empty: "\<forall>p \<in> set profiles. profileEntries p es = []"
    by (simp add: no_hours_no_entries)
  then have amounts: "\<forall>other \<in> set (phase1Results ad profiles es).
      \<forall>b \<in> set (res_deductionBreakdown other). b_amount b = 0"
    using phase1_nothing(2) by (auto simp add: phase1Results_def)
  show ?thesis
  proof
    fix r assume "r \<in> set (phase2Results ad profiles es)"
    then obtain p where p: "p \<in> set profiles"
      and r: "r = phase2 ad (map sortProfile profiles) (phase1Results ad profiles es) (phase1 ad es p)"
      by (auto simp add: phase2Results_def phase1Results_def)
    from p empty have "res_netAmount (phase1 ad es p) = 0"
      by (simp add: phase1_nothing(1))
    then show "res_netAmount r = 0"
      unfolding r phase2_fields by (simp add: receivedFromOthersOf_nothing [OF amounts])
  qed
qed

text \<open>
  C6, as amended. Each quotient of the aggregator is exactly 0 when its own divisor is
  0: the average rate is 0 when the total hours are 0 (and also when the total amount
  is 0), and every percentage of the payment distribution is 0 when the total of the
  net amounts, by which they are divided, is 0. When every logged entry has positive
  hours, as the data model requires, total hours of 0 also make every percentage 0,
  since then no profile has an entry and every amount is 0. No division by 0 is ever
  evaluated: whatever the results, the average rate and every percentage are numbers,
  never the value that stands for \<open>NaN\<close> or an infinity. The aggregator is a total
  function without a failing branch. As stated for both quotients under either
  condition, the claim fails whichever total "the total payment" is. A profile whose
  fixed deduction equals its rate has a net total of 0 and an average rate of 10. A
  profile with five hours at a rate id that names no rate, a fixed deduction of 2 per
  hour handed to a second profile and a percentage deduction of 10 has a gross total
  of 0, and the percentages are -900 and 1000.
\<close>

theorem aggregator_zero_guard:
  "(cp_totalHours (clientPaymentOf results) = 0 \<or> cp_totalAmount (clientPaymentOf results) = 0
      \<longrightarrow> cp_averageRate (clientPaymentOf results) = Some 0)
   \<and> (totalOf res_netAmount results = 0
      \<longrightarrow> (\<forall>d \<in> set (paymentDistributionOf results). pd_percentage d = Some 0))
   \<and> ((\<forall>e \<in> set es. 0 < e_hours e)
        \<and> cp_totalHours (t_clientPayment (calculateTotals ad profiles es)) = 0
      \<longrightarrow> (\<forall>d \<in> set (t_paymentDistribution (calculateTotals ad profiles es)).
            pd_percentage d = Some 0))
   \<and> cp_averageRate (clientPaymentOf results) \<noteq> None
   \<and> (\<forall>d \<in> set (paymentDistributionOf results). pd_percentage d \<noteq> None)"
proof -
  have rate: "cp_totalHours (clientPaymentOf results) = 0 \<or> cp_totalAmount (clientPaymentOf results) = 0
      \<longrightarrow> cp_averageRate (clientPaymentOf results) = Some 0"
    by (auto simp add: clientPaymentOf_def Let_def averageRateOf_zero)
  have share: "totalOf res_netAmount rs = 0
      \<longrightarrow> (\<forall>d \<in> set (paymentDistributionOf rs). pd_percentage d = Some 0)" for rs
    by (auto simp add: paymentDistributionOf_def Let_def percentageOf_zero)
  have idle: "\<forall>d \<in> set (t_paymentDistribution (calculateTotals ad profiles es)).
      pd_percentage d = Some 0"
    if positive: "\<forall>e \<in> set es. 0 < e_hours e"
      and none: "cp_totalHours (t_clientPayment (calculateTotals ad profiles es)) = 0"
  proof -
    from none have "totalOf res_totalHours (phase2Results ad profiles es) = 0"
      by (simp add: calculateTotals_def clientPaymentOf_def Let_def)
    with positive have "\<forall>r \<in> set (phase2Results ad profiles es). res_netAmount r = 0"
      by (rule no_hours_no_net)
    then have "totalOf res_netAmount (phase2Results ad profiles es) = 0"
      unfolding totalOf_sum by (rule sum_list_all_zero)
    with share [of "phase2Results ad profiles es"] show ?thesis
      by (simp add: calculateTotals_def Let_def)
  qed
  have finite_rate: "cp_averageRate (clientPaymentOf results) \<noteq> None"
    by (simp add: clientPaymentOf_def Let_def averageRateOf_finite)
  have finite_share: "\<forall>d \<in> set (paymentDistributionOf results). pd_percentage d \<noteq> None"
    by (auto simp add: paymentDistributionOf_def Let_def percentageOf_finite)
  from rate share [of results] idle finite_rate finite_share show ?thesis by blast
qed

theorem aggregator_zero_guard_witness:
  "cp_totalHours (clientPaymentOf (phase2Results noToggles [scenarioC] [])) = 0
   \<and> cp_averageRate (clientPaymentOf (phase2Results noToggles [scenarioC] [])) = Some 0
   \<and> totalOf res_netAmount (phase2Results noToggles [fullyDeducted] oneHour) = 0
   \<and> map pd_percentage (paymentDistributionOf (phase2Results noToggles [fullyDeducted] oneHour))
       = [Some 0]
   \<and> cp_averageRate (clientPaymentOf (phase2Results noToggles [fullyDeducted] oneHour)) = Some 10
   \<and> map e_hours othersHours = [3]
   \<and> cp_totalHours (t_clientPayment (calculateTotals noToggles [scenarioC] othersHours)) = 0
   \<and> map pd_percentage (t_paymentDistribution (calculateTotals noToggles [scenarioC] othersHours))
       = [Some 0]"
proof -
  have hours: "cp_totalHours (clientPaymentOf (phase2Results noToggles [scenarioC] [])) = 0"
    by code_simp
  have net: "totalOf res_netAmount (phase2Results noToggles [fullyDeducted] oneHour) = 0"
    by code_simp
  have one: "length (paymentDistributionOf (phase2Results noToggles [fullyDeducted] oneHour)) = 1"
    by (simp add: paymentDistributionOf_def Let_def phase2Results_def phase1Results_def)
  have rate: "cp_averageRate (clientPaymentOf (phase2Results noToggles [fullyDeducted] oneHour)) = Some 10"
    by code_simp
  have logged: "map e_hours othersHours = [3]"
    by (simp add: othersHours_def scenario_simps)
  then have positive: "\<forall>e \<in> set othersHours. 0 < e_hours e"
    by (simp add: othersHours_def)
  have idle: "cp_totalHours (t_clientPayment (calculateTotals noToggles [scenarioC] othersHours)) = 0"
    by code_simp
  have single: "length (t_paymentDistribution (calculateTotals noToggles [scenarioC] othersHours)) = 1"
    by (simp add: calculateTotals_def paymentDistributionOf_def Let_def phase2Results_def
        phase1Results_def)
  from aggregator_zero_guard [of "phase2Results noToggles [scenarioC] []"] hours
  have "cp_averageRate (clientPaymentOf (phase2Results noToggles [scenarioC] [])) = Some 0"
    by blast
  moreover
  from aggregator_zero_guard [of "phase2Results noToggles [fullyDeducted] oneHour"] net
  have "\<forall>d \<in> set (paymentDistributionOf (phase2Results noToggles [fullyDeducted] oneHour)).
      pd_percentage d = Some 0"
    by blast
  with one have "map pd_percentage (paymentDistributionOf (phase2Results noToggles [fullyDeducted] oneHour))
      = [Some 0]"
    by (cases "paymentDistributionOf (phase2Results noToggles [fullyDeducted] oneHour)") simp_all
  moreover
  from aggregator_zero_guard [where es = othersHours and ad = noToggles and profiles = "[scenarioC]"]
    positive idle
  have "\<forall>d \<in> set (t_paymentDistribution (calculateTotals noToggles [scenarioC] othersHours)).
      pd_percentage d = Some 0"
    by blast
  with single have "map pd_percentage
      (t_paymentDistribution (calculateTotals noToggles [scenarioC] othersHours)) = [Some 0]"
    by (cases "t_paymentDistribution (calculateTotals noToggles [scenarioC] othersHours)") simp_all
  ultimately show ?thesis using hours net rate logged idle by blast
qed

theorem aggregator_zero_guard_counterexample:
  "totalOf res_netAmount (t_calculations (calculateTotals noToggles [fullyDeducted] oneHour)) = 0
   \<and> cp_averageRate (t_clientPayment (calculateTotals noToggles [fullyDeducted] oneHour)) = Some 10
   \<and> cp_totalAmount (t_clientPayment (calculateTotals noToggles danglingRate danglingRate_hours)) = 0
   \<and> cp_totalHours (t_clientPayment (calculateTotals noToggles danglingRate danglingRate_hours)) = 5
   \<and> map pd_percentage (t_paymentDistribution (calculateTotals noToggles danglingRate danglingRate_hours))
       = [Some (- 900), Some 1000]"
  by code_simp

end
